theory Spec2Isabelle
  imports Complex_Main
begin

section \<open>Python values, errors and library functions\<close>

text \<open>
  The benchmark harness is Python. Its \<open>int\<close> is the unbounded \<^typ>\<open>int\<close>; its
  \<open>float\<close> is idealised as \<^typ>\<open>real\<close> (exact arithmetic, no NaN, no infinity, no
  rounding), except that converting an \<open>int\<close> beyond the range of a double raises
  \<open>OverflowError\<close> as it does in Python; its \<open>str\<close> is \<^typ>\<open>string\<close>, the bytes of the
  text in UTF-8. Every \<open>raise\<close> is a value: a function that can raise returns
  \<open>py_error + 'a\<close>, with \<open>Inl\<close> carrying the exception.

  The integers the operating system hands out (nanosecond counters, the resident set
  size, the size of a file) are machine words, far inside the range of a double, so the
  divisions applied to them are exact quotients here. \<open>log_count\<close> is a field of a
  dataclass and can hold any \<open>int\<close>.
\<close>

datatype py_error =
    ZeroDivisionError
  | OverflowError
  | StatisticsError string
  | ValueError string
  | IndexError
  | KeyError string
  | TypeError string
  | RuntimeError string
  | OSError string
  | UnicodeDecodeError
  | FileNotFoundError string
  | PyException string

definition py_bind :: "py_error + 'a \<Rightarrow> ('a \<Rightarrow> py_error + 'b) \<Rightarrow> py_error + 'b" where
  "py_bind m f = (case m of Inl e \<Rightarrow> Inl e | Inr v \<Rightarrow> f v)"

text \<open>\<open>a / b\<close> on floats raises \<open>ZeroDivisionError\<close> when \<open>b\<close> is zero.\<close>

definition py_truediv :: "real \<Rightarrow> real \<Rightarrow> py_error + real" where
  "py_truediv a b = (if b = 0 then Inl ZeroDivisionError else Inr (a / b))"

text \<open>
  \<open>float(i)\<close> of an \<open>int\<close>, which is also the first step of \<open>i / b\<close> for a float \<open>b\<close>:
  the conversion rounds to the nearest double and raises \<open>OverflowError\<close> when the result
  would exceed the largest one, that is for every \<open>i\<close> of magnitude \<open>2^1024 - 2^970\<close> or
  more. The division by zero is detected after the conversion.
\<close>

definition fits_float :: "int \<Rightarrow> bool" where
  "fits_float i \<longleftrightarrow> \<bar>i\<bar> < 2 ^ 1024 - 2 ^ 970"

definition py_float :: "int \<Rightarrow> py_error + real" where
  "py_float i = (if fits_float i then Inr (real_of_int i) else Inl OverflowError)"

definition py_int_truediv :: "int \<Rightarrow> real \<Rightarrow> py_error + real" where
  "py_int_truediv i b = py_bind (py_float i) (\<lambda>a. py_truediv a b)"

text \<open>
  \<open>bytes.decode()\<close> with its defaults (UTF-8, strict). A \<open>str\<close> being the UTF-8 bytes of
  its text here, decoding well-formed bytes returns them unchanged, and anything else
  raises \<open>UnicodeDecodeError\<close>: a stray continuation byte, a truncated or overlong
  sequence, a surrogate, or a code point beyond \<open>U+10FFFF\<close>.
\<close>

definition utf8_cont :: "nat \<Rightarrow> bool" where
  "utf8_cont b \<longleftrightarrow> 0x80 \<le> b \<and> b \<le> 0xBF"

fun utf8_valid :: "nat list \<Rightarrow> bool" where
  "utf8_valid [] = True"
| "utf8_valid (b # bs) =
     (if b < 0x80 then utf8_valid bs
      else if 0xC2 \<le> b \<and> b \<le> 0xDF then
        (case bs of
           c1 # rest \<Rightarrow> utf8_cont c1 \<and> utf8_valid rest
         | _ \<Rightarrow> False)
      else if 0xE0 \<le> b \<and> b \<le> 0xEF then
        (case bs of
           c1 # c2 # rest \<Rightarrow>
             (if b = 0xE0 then 0xA0 \<le> c1 \<and> c1 \<le> 0xBF
              else if b = 0xED then 0x80 \<le> c1 \<and> c1 \<le> 0x9F
              else utf8_cont c1) \<and>
             utf8_cont c2 \<and> utf8_valid rest
         | _ \<Rightarrow> False)
      else if 0xF0 \<le> b \<and> b \<le> 0xF4 then
        (case bs of
           c1 # c2 # c3 # rest \<Rightarrow>
             (if b = 0xF0 then 0x90 \<le> c1 \<and> c1 \<le> 0xBF
              else if b = 0xF4 then 0x80 \<le> c1 \<and> c1 \<le> 0x8F
              else utf8_cont c1) \<and>
             utf8_cont c2 \<and> utf8_cont c3 \<and> utf8_valid rest
         | _ \<Rightarrow> False)
      else False)"

definition bytes_decode :: "string \<Rightarrow> py_error + string" where
  "bytes_decode bs =
     (if utf8_valid (map of_char bs) then Inr bs else Inl UnicodeDecodeError)"

text \<open>\<open>xs[i]\<close>: a negative index counts from the end, out of range raises \<open>IndexError\<close>.\<close>

definition py_getitem :: "'a list \<Rightarrow> int \<Rightarrow> py_error + 'a" where
  "py_getitem xs i =
     (if 0 \<le> i \<and> i < int (length xs) then Inr (xs ! nat i)
      else if i < 0 \<and> - int (length xs) \<le> i then Inr (xs ! nat (int (length xs) + i))
      else Inl IndexError)"

text \<open>\<open>sorted(xs)\<close> on floats: ascending, stable.\<close>

definition py_sorted :: "real list \<Rightarrow> real list" where
  "py_sorted xs = sort xs"

text \<open>\<open>max(xs)\<close> and \<open>min(xs)\<close> scan from the left and raise \<open>ValueError\<close> on an empty
  sequence.\<close>

definition py_max :: "real list \<Rightarrow> py_error + real" where
  "py_max xs = (case xs of [] \<Rightarrow> Inl (ValueError ''max() arg is an empty sequence'')
                | x # rest \<Rightarrow> Inr (foldl max x rest))"

definition py_min :: "real list \<Rightarrow> py_error + real" where
  "py_min xs = (case xs of [] \<Rightarrow> Inl (ValueError ''min() arg is an empty sequence'')
                | x # rest \<Rightarrow> Inr (foldl min x rest))"

text \<open>\<open>statistics.mean\<close> and \<open>statistics.median\<close> raise \<open>StatisticsError\<close> on empty data.
  The median of an even number of points is the mean of the two middle ones.\<close>

definition statistics_mean :: "real list \<Rightarrow> py_error + real" where
  "statistics_mean xs =
     (if length xs < 1 then Inl (StatisticsError ''mean requires at least one data point'')
      else Inr (sum_list xs / real (length xs)))"

definition statistics_median :: "real list \<Rightarrow> py_error + real" where
  "statistics_median xs =
     (let data = py_sorted xs; n = length data
      in if n = 0 then Inl (StatisticsError ''no median for empty data'')
         else if n mod 2 = 1 then Inr (data ! (n div 2))
         else Inr ((data ! (n div 2 - 1) + data ! (n div 2)) / 2))"

section \<open>metrics.py: the metrics model\<close>

text \<open>
  Field names are the source's, except where two dataclasses share a name: Isabelle
  record fields are global, so \<open>ServerMetrics.start_time\<close>, \<open>ServerMetrics.end_time\<close> are
  \<open>server_start_time\<close>, \<open>server_end_time\<close> here.
\<close>

record MemorySample =
  timestamp :: real
  memory_mb :: real

record ServerMetrics =
  memory_samples :: "MemorySample list"
  server_start_time :: real
  server_end_time :: real
  rrd_file_size_mb :: real

text \<open>The dataclass defaults: \<open>ServerMetrics()\<close>.\<close>

definition ServerMetrics_default :: ServerMetrics where
  "ServerMetrics_default =
     \<lparr>memory_samples = [], server_start_time = 0, server_end_time = 0, rrd_file_size_mb = 0\<rparr>"

definition ServerMetrics_memory_peak_mb :: "ServerMetrics \<Rightarrow> py_error + real" where
  "ServerMetrics_memory_peak_mb m =
     (if memory_samples m = [] then Inr 0
      else py_max (map memory_mb (memory_samples m)))"

definition ServerMetrics_memory_avg_mb :: "ServerMetrics \<Rightarrow> py_error + real" where
  "ServerMetrics_memory_avg_mb m =
     (if memory_samples m = [] then Inr 0
      else statistics_mean (map memory_mb (memory_samples m)))"

definition ServerMetrics_duration_sec :: "ServerMetrics \<Rightarrow> real" where
  "ServerMetrics_duration_sec m = server_end_time m - server_start_time m"

text \<open>\<open>data_size: int | str\<close>.\<close>

datatype data_size = SizeInt int | SizeStr string

record ClientMetrics =
  client_id :: string
  data_type :: string
  data_size :: data_size
  frequency_hz :: real
  log_count :: int
  latencies_ms :: "real list"
  start_time :: real
  end_time :: real
  errors :: "string list"

definition ClientMetrics_default :: ClientMetrics where
  "ClientMetrics_default =
     \<lparr>client_id = [], data_type = [], data_size = SizeInt 0, frequency_hz = 0,
      log_count = 0, latencies_ms = [], start_time = 0, end_time = 0, errors = []\<rparr>"

definition ClientMetrics_latency_mean_ms :: "ClientMetrics \<Rightarrow> py_error + real" where
  "ClientMetrics_latency_mean_ms c =
     (if latencies_ms c = [] then Inr 0 else statistics_mean (latencies_ms c))"

definition ClientMetrics_latency_p50_ms :: "ClientMetrics \<Rightarrow> py_error + real" where
  "ClientMetrics_latency_p50_ms c =
     (if latencies_ms c = [] then Inr 0 else statistics_median (latencies_ms c))"

text \<open>\<open>idx = int(len(sorted_latencies) * 0.99)\<close>: the product is a non-negative float and
  \<open>int\<close> truncates it, which is \<open>floor\<close> there.\<close>

definition ClientMetrics_latency_p99_ms :: "ClientMetrics \<Rightarrow> py_error + real" where
  "ClientMetrics_latency_p99_ms c =
     (if latencies_ms c = [] then Inr 0
      else let sorted_latencies = py_sorted (latencies_ms c);
               idx = \<lfloor>real (length sorted_latencies) * 0.99\<rfloor>
           in py_getitem sorted_latencies (min idx (int (length sorted_latencies) - 1)))"

definition ClientMetrics_latency_max_ms :: "ClientMetrics \<Rightarrow> py_error + real" where
  "ClientMetrics_latency_max_ms c =
     (if latencies_ms c = [] then Inr 0 else py_max (latencies_ms c))"

definition ClientMetrics_latency_min_ms :: "ClientMetrics \<Rightarrow> py_error + real" where
  "ClientMetrics_latency_min_ms c =
     (if latencies_ms c = [] then Inr 0 else py_min (latencies_ms c))"

definition ClientMetrics_duration_sec :: "ClientMetrics \<Rightarrow> real" where
  "ClientMetrics_duration_sec c = end_time c - start_time c"

definition ClientMetrics_throughput :: "ClientMetrics \<Rightarrow> py_error + real" where
  "ClientMetrics_throughput c =
     (if ClientMetrics_duration_sec c \<le> 0 then Inr 0
      else py_int_truediv (log_count c) (ClientMetrics_duration_sec c))"

record AggregatedClientMetrics =
  total_log_count :: int
  total_throughput :: real
  latency_mean_ms :: real
  latency_p50_ms :: real
  latency_p99_ms :: real
  latency_max_ms :: real
  latency_min_ms :: real
  client_count :: int

definition AggregatedClientMetrics_default :: AggregatedClientMetrics where
  "AggregatedClientMetrics_default =
     \<lparr>total_log_count = 0, total_throughput = 0, latency_mean_ms = 0, latency_p50_ms = 0,
      latency_p99_ms = 0, latency_max_ms = 0, latency_min_ms = 0, client_count = 0\<rparr>"

text \<open>The \<open>for client in clients\<close> loop of \<open>from_clients\<close>, on its three accumulators
  \<open>all_latencies\<close>, \<open>total_log_count\<close> and \<open>total_throughput\<close> (the last two are named
  \<open>total_logs\<close> and \<open>total_rate\<close> here, the source's names being record fields).\<close>

fun from_clients_loop ::
  "ClientMetrics list \<Rightarrow> real list \<times> int \<times> real \<Rightarrow> py_error + (real list \<times> int \<times> real)" where
  "from_clients_loop [] acc = Inr acc"
| "from_clients_loop (client # rest) (all_latencies, total_logs, total_rate) =
     py_bind (ClientMetrics_throughput client) (\<lambda>t.
       from_clients_loop rest
         (all_latencies @ latencies_ms client,
          total_logs + log_count client,
          total_rate + t))"

definition AggregatedClientMetrics_from_clients ::
  "ClientMetrics list \<Rightarrow> py_error + AggregatedClientMetrics" where
  "AggregatedClientMetrics_from_clients clients =
     (if clients = [] then Inr AggregatedClientMetrics_default
      else py_bind (from_clients_loop clients ([], 0, 0))
        (\<lambda>(all_latencies, total_logs, total_rate).
           let result = AggregatedClientMetrics_default
                 \<lparr>total_log_count := total_logs, total_throughput := total_rate,
                  client_count := int (length clients)\<rparr>
           in if all_latencies \<noteq> [] then
                py_bind (statistics_mean all_latencies) (\<lambda>mean.
                py_bind (statistics_median all_latencies) (\<lambda>median.
                  let sorted_latencies = py_sorted all_latencies;
                      idx = \<lfloor>real (length sorted_latencies) * 0.99\<rfloor>
                  in
                py_bind (py_getitem sorted_latencies
                           (min idx (int (length sorted_latencies) - 1))) (\<lambda>p99.
                py_bind (py_max all_latencies) (\<lambda>mx.
                py_bind (py_min all_latencies) (\<lambda>mn.
                  Inr (result\<lparr>latency_mean_ms := mean, latency_p50_ms := median,
                              latency_p99_ms := p99, latency_max_ms := mx,
                              latency_min_ms := mn\<rparr>))))))
              else Inr result))"

section \<open>metrics.py: the persisted JSON form\<close>

text \<open>
  What \<open>json.dump\<close> writes and \<open>json.load\<close> reads back is a tree of JSON values. A Python
  \<open>dict\<close> with string keys is an association list in insertion order; \<open>d.get(k, default)\<close>
  and \<open>d[k]\<close> read the first binding of \<open>k\<close>, and \<open>d[k]\<close> raises \<open>KeyError\<close> without one.
\<close>

datatype json =
    JNull
  | JBool bool
  | JInt int
  | JFloat real
  | JStr string
  | JList "json list"
  | JDict "(string \<times> json) list"

definition dict_get :: "(string \<times> json) list \<Rightarrow> string \<Rightarrow> json \<Rightarrow> json" where
  "dict_get d k dflt = (case map_of d k of None \<Rightarrow> dflt | Some v \<Rightarrow> v)"

definition dict_getitem :: "(string \<times> json) list \<Rightarrow> string \<Rightarrow> py_error + json" where
  "dict_getitem d k = (case map_of d k of None \<Rightarrow> Inl (KeyError k) | Some v \<Rightarrow> Inr v)"

text \<open>
  The dataclasses are typed records here, while Python stores whatever value the JSON
  holds. Reading a field therefore goes through one of the following projections, which
  returns the value when it has the annotated type and reports \<open>TypeError\<close> otherwise (an
  input on which the Python object would hold an ill-typed field).
\<close>

fun as_float :: "json \<Rightarrow> py_error + real" where
  "as_float (JFloat x) = Inr x"
| "as_float _ = Inl (TypeError ''float expected'')"

fun as_int :: "json \<Rightarrow> py_error + int" where
  "as_int (JInt n) = Inr n"
| "as_int _ = Inl (TypeError ''int expected'')"

fun as_str :: "json \<Rightarrow> py_error + string" where
  "as_str (JStr s) = Inr s"
| "as_str _ = Inl (TypeError ''str expected'')"

fun as_data_size :: "json \<Rightarrow> py_error + data_size" where
  "as_data_size (JInt n) = Inr (SizeInt n)"
| "as_data_size (JStr s) = Inr (SizeStr s)"
| "as_data_size _ = Inl (TypeError ''int or str expected'')"

fun as_list :: "json \<Rightarrow> py_error + json list" where
  "as_list (JList xs) = Inr xs"
| "as_list _ = Inl (TypeError ''list expected'')"

fun as_dict :: "json \<Rightarrow> py_error + (string \<times> json) list" where
  "as_dict (JDict d) = Inr d"
| "as_dict _ = Inl (TypeError ''dict expected'')"

text \<open>A comprehension or \<open>for\<close> loop over a list whose body may raise: the first error
  ends it.\<close>

fun py_for_each :: "('a \<Rightarrow> py_error + 'b) \<Rightarrow> 'a list \<Rightarrow> py_error + 'b list" where
  "py_for_each f [] = Inr []"
| "py_for_each f (x # xs) =
     py_bind (f x) (\<lambda>y. py_bind (py_for_each f xs) (\<lambda>ys. Inr (y # ys)))"

fun data_size_json :: "data_size \<Rightarrow> json" where
  "data_size_json (SizeInt n) = JInt n"
| "data_size_json (SizeStr s) = JStr s"

subsection \<open>ServerMetrics\<close>

definition MemorySample_json :: "MemorySample \<Rightarrow> json" where
  "MemorySample_json s =
     JDict [(''timestamp'', JFloat (timestamp s)), (''memory_mb'', JFloat (memory_mb s))]"

definition ServerMetrics_to_dict :: "ServerMetrics \<Rightarrow> py_error + (string \<times> json) list" where
  "ServerMetrics_to_dict m =
     py_bind (ServerMetrics_memory_peak_mb m) (\<lambda>peak.
     py_bind (ServerMetrics_memory_avg_mb m) (\<lambda>avg.
       Inr [(''memory_samples'', JList (map MemorySample_json (memory_samples m))),
            (''memory_peak_mb'', JFloat peak),
            (''memory_avg_mb'', JFloat avg),
            (''start_time'', JFloat (server_start_time m)),
            (''end_time'', JFloat (server_end_time m)),
            (''duration_sec'', JFloat (ServerMetrics_duration_sec m)),
            (''rrd_file_size_mb'', JFloat (rrd_file_size_mb m))]))"

text \<open>One iteration of the loop of \<open>ServerMetrics.from_dict\<close>:
  \<open>MemorySample(timestamp=sample["timestamp"], memory_mb=sample["memory_mb"])\<close>.\<close>

definition MemorySample_of_json :: "json \<Rightarrow> py_error + MemorySample" where
  "MemorySample_of_json sample =
     py_bind (as_dict sample) (\<lambda>d.
     py_bind (py_bind (dict_getitem d ''timestamp'') as_float) (\<lambda>t.
     py_bind (py_bind (dict_getitem d ''memory_mb'') as_float) (\<lambda>mb.
       Inr \<lparr>timestamp = t, memory_mb = mb\<rparr>)))"

definition ServerMetrics_from_dict :: "(string \<times> json) list \<Rightarrow> py_error + ServerMetrics" where
  "ServerMetrics_from_dict data =
     py_bind (as_float (dict_get data ''start_time'' (JFloat 0))) (\<lambda>st.
     py_bind (as_float (dict_get data ''end_time'' (JFloat 0))) (\<lambda>et.
     py_bind (as_float (dict_get data ''rrd_file_size_mb'' (JFloat 0))) (\<lambda>sz.
     py_bind (as_list (dict_get data ''memory_samples'' (JList []))) (\<lambda>samples.
     py_bind (py_for_each MemorySample_of_json samples) (\<lambda>appended.
       Inr \<lparr>memory_samples = [] @ appended, server_start_time = st,
            server_end_time = et, rrd_file_size_mb = sz\<rparr>)))))"

subsection \<open>ClientMetrics\<close>

definition ClientMetrics_to_dict :: "ClientMetrics \<Rightarrow> py_error + (string \<times> json) list" where
  "ClientMetrics_to_dict c =
     py_bind (ClientMetrics_latency_mean_ms c) (\<lambda>mean.
     py_bind (ClientMetrics_latency_p50_ms c) (\<lambda>p50.
     py_bind (ClientMetrics_latency_p99_ms c) (\<lambda>p99.
     py_bind (ClientMetrics_latency_max_ms c) (\<lambda>mx.
     py_bind (ClientMetrics_latency_min_ms c) (\<lambda>mn.
     py_bind (ClientMetrics_throughput c) (\<lambda>thr.
       Inr [(''client_id'', JStr (client_id c)),
            (''data_type'', JStr (data_type c)),
            (''data_size'', data_size_json (data_size c)),
            (''frequency_hz'', JFloat (frequency_hz c)),
            (''log_count'', JInt (log_count c)),
            (''latencies_ms'', JList (map JFloat (latencies_ms c))),
            (''latency_mean_ms'', JFloat mean),
            (''latency_p50_ms'', JFloat p50),
            (''latency_p99_ms'', JFloat p99),
            (''latency_max_ms'', JFloat mx),
            (''latency_min_ms'', JFloat mn),
            (''start_time'', JFloat (start_time c)),
            (''end_time'', JFloat (end_time c)),
            (''duration_sec'', JFloat (ClientMetrics_duration_sec c)),
            (''throughput'', JFloat thr),
            (''errors'', JList (map JStr (errors c)))]))))))"

definition ClientMetrics_from_dict :: "(string \<times> json) list \<Rightarrow> py_error + ClientMetrics" where
  "ClientMetrics_from_dict data =
     py_bind (as_str (dict_get data ''client_id'' (JStr []))) (\<lambda>cid.
     py_bind (as_str (dict_get data ''data_type'' (JStr []))) (\<lambda>dt.
     py_bind (as_data_size (dict_get data ''data_size'' (JInt 0))) (\<lambda>ds.
     py_bind (as_float (dict_get data ''frequency_hz'' (JFloat 0))) (\<lambda>fq.
     py_bind (as_int (dict_get data ''log_count'' (JInt 0))) (\<lambda>lc.
     py_bind (py_bind (as_list (dict_get data ''latencies_ms'' (JList [])))
                (py_for_each as_float)) (\<lambda>lats.
     py_bind (as_float (dict_get data ''start_time'' (JFloat 0))) (\<lambda>st.
     py_bind (as_float (dict_get data ''end_time'' (JFloat 0))) (\<lambda>et.
     py_bind (py_bind (as_list (dict_get data ''errors'' (JList [])))
                (py_for_each as_str)) (\<lambda>errs.
       Inr \<lparr>client_id = cid, data_type = dt, data_size = ds, frequency_hz = fq,
            log_count = lc, latencies_ms = lats, start_time = st, end_time = et,
            errors = errs\<rparr>)))))))))"

subsection \<open>AggregatedClientMetrics and BenchmarkResult\<close>

definition AggregatedClientMetrics_to_dict :: "AggregatedClientMetrics \<Rightarrow> (string \<times> json) list" where
  "AggregatedClientMetrics_to_dict a =
     [(''total_log_count'', JInt (total_log_count a)),
      (''total_throughput'', JFloat (total_throughput a)),
      (''latency_mean_ms'', JFloat (latency_mean_ms a)),
      (''latency_p50_ms'', JFloat (latency_p50_ms a)),
      (''latency_p99_ms'', JFloat (latency_p99_ms a)),
      (''latency_max_ms'', JFloat (latency_max_ms a)),
      (''latency_min_ms'', JFloat (latency_min_ms a)),
      (''client_count'', JInt (client_count a))]"

text \<open>\<open>BenchmarkResult.timestamp\<close> (an ISO date string) is \<open>result_timestamp\<close> here, the
  name \<open>timestamp\<close> being the field of \<open>MemorySample\<close>.\<close>

record BenchmarkResult =
  name :: string
  description :: string
  backend_type :: string
  result_timestamp :: string
  server_metrics :: ServerMetrics
  client_metrics :: "ClientMetrics list"
  config_snapshot :: "(string \<times> json) list"

definition BenchmarkResult_aggregated_client_metrics ::
  "BenchmarkResult \<Rightarrow> py_error + AggregatedClientMetrics" where
  "BenchmarkResult_aggregated_client_metrics r =
     AggregatedClientMetrics_from_clients (client_metrics r)"

definition BenchmarkResult_to_dict :: "BenchmarkResult \<Rightarrow> py_error + (string \<times> json) list" where
  "BenchmarkResult_to_dict r =
     py_bind (ServerMetrics_to_dict (server_metrics r)) (\<lambda>sm.
     py_bind (py_for_each ClientMetrics_to_dict (client_metrics r)) (\<lambda>cms.
     py_bind (BenchmarkResult_aggregated_client_metrics r) (\<lambda>agg.
       Inr [(''name'', JStr (name r)),
            (''description'', JStr (description r)),
            (''backend_type'', JStr (backend_type r)),
            (''timestamp'', JStr (result_timestamp r)),
            (''server_metrics'', JDict sm),
            (''client_metrics'', JList (map JDict cms)),
            (''aggregated_client_metrics'', JDict (AggregatedClientMetrics_to_dict agg)),
            (''config_snapshot'', JDict (config_snapshot r))])))"

text \<open>
  \<open>save\<close> and \<open>load\<close> of a result work on the file system through \<open>pathlib\<close>, \<open>open\<close> and
  the \<open>json\<close> module. These are the environment of the model; \<open>'f\<close> is the type of the
  text of a file:
  \<^item> \<open>io_mkdir\<close> is the outcome of \<open>output_dir.mkdir(parents=True, exist_ok=True)\<close>
    (\<open>None\<close>: it returned);
  \<^item> \<open>io_joinpath\<close> is the path \<open>pathlib\<close> forms from a directory and a file name;
  \<^item> \<open>io_open_write\<close> is the outcome of \<open>open(filepath, "w")\<close>, which truncates the file
    when it succeeds, leaving \<open>io_empty\<close> there;
  \<^item> \<open>io_json_dump\<close> is \<open>json.dump\<close> of a value into the open file: the exception, if any,
    that cut the writing (or the closing of the file) short, and the text that reached
    the file;
  \<^item> \<open>io_open_read\<close> is the outcome of \<open>open(path)\<close> on a file that exists;
  \<^item> \<open>io_json_load\<close> is \<open>json.load\<close> on the text of a file: the value, or the exception
    raised for a text that is not JSON.

  A disk binds each path that names a file to the text of that file. \<open>save\<close> returns its
  outcome together with the disk it leaves: the file is opened, and so emptied, before
  \<open>self.to_dict()\<close> is evaluated. \<open>save\<close> takes the formatted clock reading \<open>ts\<close>
  (\<open>datetime.now().strftime("%Y%m%d_%H%M%S")\<close>) as an argument.
\<close>

record 'f file_io =
  io_mkdir :: "string \<Rightarrow> py_error option"
  io_joinpath :: "string \<Rightarrow> string \<Rightarrow> string"
  io_open_write :: "string \<Rightarrow> py_error option"
  io_empty :: 'f
  io_json_dump :: "json \<Rightarrow> py_error option \<times> 'f"
  io_open_read :: "string \<Rightarrow> py_error option"
  io_json_load :: "'f \<Rightarrow> py_error + json"

type_synonym 'f disk = "string \<Rightarrow> 'f option"

definition BenchmarkResult_save ::
  "'f file_io \<Rightarrow> 'f disk \<Rightarrow> BenchmarkResult \<Rightarrow> string \<Rightarrow> string \<Rightarrow>
     (py_error + string) \<times> 'f disk" where
  "BenchmarkResult_save io fs r output_dir ts =
     (case io_mkdir io output_dir of
        Some e \<Rightarrow> (Inl e, fs)
      | None \<Rightarrow>
          (let filename = name r @ ''_'' @ ts @ ''.json'';
               filepath = io_joinpath io output_dir filename
           in case io_open_write io filepath of
                Some e \<Rightarrow> (Inl e, fs)
              | None \<Rightarrow>
                  (case BenchmarkResult_to_dict r of
                     Inl e \<Rightarrow> (Inl e, fs(filepath \<mapsto> io_empty io))
                   | Inr d \<Rightarrow>
                       (case io_json_dump io (JDict d) of
                          (Some e, written_text) \<Rightarrow> (Inl e, fs(filepath \<mapsto> written_text))
                        | (None, written_text) \<Rightarrow>
                            (Inr filepath, fs(filepath \<mapsto> written_text))))))"

definition BenchmarkResult_load :: "'f file_io \<Rightarrow> 'f disk \<Rightarrow> string \<Rightarrow> py_error + BenchmarkResult" where
  "BenchmarkResult_load io fs path =
     (case fs path of
        None \<Rightarrow> Inl (FileNotFoundError path)
      | Some file_text \<Rightarrow>
          (case io_open_read io path of
             Some e \<Rightarrow> Inl e
           | None \<Rightarrow>
          py_bind (io_json_load io file_text) (\<lambda>tree.
          py_bind (as_dict tree) (\<lambda>data.
          py_bind (py_bind (dict_getitem data ''name'') as_str) (\<lambda>nm.
          py_bind (as_str (dict_get data ''description'' (JStr []))) (\<lambda>ds.
          py_bind (py_bind (dict_getitem data ''backend_type'') as_str) (\<lambda>bt.
          py_bind (py_bind (dict_getitem data ''timestamp'') as_str) (\<lambda>tsp.
          py_bind (py_bind (as_dict (dict_get data ''server_metrics'' (JDict [])))
                     ServerMetrics_from_dict) (\<lambda>sm.
          py_bind (py_bind (as_list (dict_get data ''client_metrics'' (JList [])))
                     (py_for_each (\<lambda>c. py_bind (as_dict c) ClientMetrics_from_dict))) (\<lambda>cms.
          py_bind (as_dict (dict_get data ''config_snapshot'' (JDict []))) (\<lambda>snap.
            Inr \<lparr>name = nm, description = ds, backend_type = bt, result_timestamp = tsp,
                 server_metrics = sm, client_metrics = cms,
                 config_snapshot = snap\<rparr>)))))))))))"

text \<open>
  The metrics file of a client is kept in a store from paths to the value each file holds,
  in which the parent directory can be created and the file written and read back:
  \<open>json.dump\<close> into the file binds the path to the value and \<open>json.load\<close> returns the value
  bound to the path (\<open>open\<close> raises \<open>FileNotFoundError\<close> without one).
\<close>

type_synonym file_store = "string \<Rightarrow> json option"

definition save_client_metrics :: "file_store \<Rightarrow> ClientMetrics \<Rightarrow> string \<Rightarrow> py_error + file_store" where
  "save_client_metrics fs metrics path =
     py_bind (ClientMetrics_to_dict metrics) (\<lambda>d. Inr (fs(path \<mapsto> JDict d)))"

definition load_client_metrics :: "file_store \<Rightarrow> string \<Rightarrow> py_error + ClientMetrics" where
  "load_client_metrics fs path =
     (case fs path of
        None \<Rightarrow> Inl (FileNotFoundError path)
      | Some tree \<Rightarrow> py_bind (as_dict tree) ClientMetrics_from_dict)"

section \<open>backends/rerun/client_py.py: the client process\<close>

text \<open>
  The client's \<open>main\<close> talks to four things outside the repository's control: Python's
  \<open>int()\<close> parser, the \<open>rerun\<close> connection, the payload generator and the clocks. They are
  the environment of the model:
  \<^item> \<open>int_of_str\<close> is \<open>int(size)\<close>, which may raise \<open>ValueError\<close>;
  \<^item> \<open>connect_grpc\<close> is the outcome of \<open>rr.init\<close> and \<open>rr.connect_grpc\<close> (\<open>None\<close>: connected);
  \<^item> \<open>generate_data\<close> is the payload generator, a function of type, size and seed;
  \<^item> \<open>entry_clock\<close> is \<open>time.time()\<close> when the \<open>try\<close> block is entered;
  \<^item> \<open>publish_calls\<close> lists, for each iteration of the publish loop in turn, whether
    \<open>rr.log\<close> returned or raised, the nanoseconds it took (the difference of the two
    \<open>perf_counter_ns\<close> readings, which is also how far the wall clock moved), and by how
    much \<open>time.sleep\<close> overslept if it was called in that iteration.
  Time passes in \<open>rr.log\<close> and in \<open>time.sleep\<close> only. The loop consumes one entry of
  \<open>publish_calls\<close> per iteration; when the list runs out while the loop condition still
  holds, the model has no answer (\<open>None\<close>).
\<close>

record publish_call =
  outcome :: "py_error option"
  elapsed_ns :: int
  oversleep :: real

record 'p client_env =
  int_of_str :: "string \<Rightarrow> py_error + int"
  connect_grpc :: "py_error option"
  generate_data :: "string \<Rightarrow> data_size \<Rightarrow> int \<Rightarrow> py_error + 'p"
  entry_clock :: real
  publish_calls :: "publish_call list"

text \<open>\<open>str(e)\<close> of a caught exception (for a \<open>KeyError\<close> it is the key in quotes).\<close>

fun py_str :: "py_error \<Rightarrow> string" where
  "py_str ZeroDivisionError = ''float division by zero''"
| "py_str OverflowError = ''int too large to convert to float''"
| "py_str (StatisticsError m) = m"
| "py_str (ValueError m) = m"
| "py_str IndexError = ''list index out of range''"
| "py_str (KeyError m) = [CHR 0x27] @ m @ [CHR 0x27]"
| "py_str (TypeError m) = m"
| "py_str (RuntimeError m) = m"
| "py_str (OSError m) = m"
| "py_str UnicodeDecodeError = ''invalid start byte''"
| "py_str (FileNotFoundError m) = m"
| "py_str (PyException m) = m"

text \<open>The local variables of the publish loop: the wall clock, \<open>log_count\<close> (the field
  \<open>logged\<close>, \<open>log_count\<close> being a field of \<open>ClientMetrics\<close>), \<open>latencies\<close> and
  \<open>current_data\<close>.\<close>

record 'p loop_state =
  now :: real
  logged :: int
  latencies :: "real list"
  current_data :: 'p

text \<open>The values fixed before the loop: \<open>data_type\<close>, \<open>parsed_size\<close>, \<open>interval\<close>,
  \<open>start_time\<close> and \<open>end_time\<close>.\<close>

record loop_params =
  lp_data_type :: string
  lp_parsed_size :: data_size
  lp_interval :: real
  lp_start_time :: real
  lp_end_time :: real

definition regen_interval :: int where
  "regen_interval = 100"

text \<open>
  One iteration of the loop body (lines 109 to 124): regenerate the payload every
  \<open>regen_interval\<close> iterations, time the \<open>rr.log\<close> call, append the latency, count the
  log, then sleep until \<open>start_time + log_count * interval\<close> if that lies ahead.
\<close>

definition publish_iteration ::
  "(string \<Rightarrow> data_size \<Rightarrow> int \<Rightarrow> py_error + 'p) \<Rightarrow> loop_params \<Rightarrow> publish_call \<Rightarrow>
     'p loop_state \<Rightarrow> (py_error + unit) \<times> 'p loop_state" where
  "publish_iteration gen p call st =
     (case (if logged st mod regen_interval = 0 \<and> logged st > 0
            then gen (lp_data_type p) (lp_parsed_size p) (logged st)
            else Inr (current_data st)) of
        Inl e \<Rightarrow> (Inl e, st)
      | Inr payload \<Rightarrow>
          (let returned_at = now st + real_of_int (elapsed_ns call) / 1000000000
           in case outcome call of
                Some e \<Rightarrow> (Inl e, st\<lparr>now := returned_at, current_data := payload\<rparr>)
              | None \<Rightarrow>
                  (let latency_ms = real_of_int (elapsed_ns call) / 1000000;
                       log_count' = logged st + 1;
                       next_time = lp_start_time p + real_of_int log_count' * lp_interval p;
                       sleep_time = next_time - returned_at;
                       woke_at = (if sleep_time > 0
                                  then returned_at + sleep_time + oversleep call
                                  else returned_at)
                   in (Inr (),
                       \<lparr>now = woke_at, logged = log_count',
                        latencies = latencies st @ [latency_ms],
                        current_data = payload\<rparr>))))"

text \<open>\<open>while time.time() < end_time\<close>. The result is the exception that left the loop, if
  any, and the locals at that point.\<close>

fun publish_loop ::
  "(string \<Rightarrow> data_size \<Rightarrow> int \<Rightarrow> py_error + 'p) \<Rightarrow> loop_params \<Rightarrow> publish_call list \<Rightarrow>
     'p loop_state \<Rightarrow> ((py_error + unit) \<times> 'p loop_state) option" where
  "publish_loop gen p [] st =
     (if now st < lp_end_time p then None else Some (Inr (), st))"
| "publish_loop gen p (call # rest) st =
     (if now st < lp_end_time p then
        (case publish_iteration gen p call st of
           (Inl e, st') \<Rightarrow> Some (Inl e, st')
         | (Inr u, st') \<Rightarrow> publish_loop gen p rest st')
      else Some (Inr (), st))"

text \<open>
  The body of the \<open>try\<close> block (lines 91 to 128), on the metrics object. It returns the
  exception that ended it, if any, the metrics object as it stands then, and the wall
  clock. The settle sleep takes exactly half a second.
\<close>

definition client_try ::
  "'p client_env \<Rightarrow> string \<Rightarrow> data_size \<Rightarrow> real \<Rightarrow> real \<Rightarrow> ClientMetrics \<Rightarrow>
     ((py_error + unit) \<times> ClientMetrics \<times> real) option" where
  "client_try env dtype parsed_size frequency duration metrics =
     (case connect_grpc env of
        Some e \<Rightarrow> Some (Inl e, metrics, entry_clock env)
      | None \<Rightarrow>
          (let settled = entry_clock env + 0.5
           in case py_truediv 1.0 frequency of
                Inl e \<Rightarrow> Some (Inl e, metrics, settled)
              | Inr interval \<Rightarrow>
                  (case generate_data env dtype parsed_size 0 of
                     Inl e \<Rightarrow> Some (Inl e, metrics, settled)
                   | Inr payload \<Rightarrow>
                       (let start = settled;
                            metrics1 = metrics\<lparr>start_time := start\<rparr>;
                            p = \<lparr>lp_data_type = dtype, lp_parsed_size = parsed_size,
                                 lp_interval = interval, lp_start_time = start,
                                 lp_end_time = start + duration\<rparr>
                        in case publish_loop (generate_data env) p (publish_calls env)
                                  \<lparr>now = start, logged = 0, latencies = [],
                                   current_data = payload\<rparr> of
                             None \<Rightarrow> None
                           | Some (Inl e, st) \<Rightarrow> Some (Inl e, metrics1, now st)
                           | Some (Inr u, st) \<Rightarrow>
                               Some (Inr (),
                                     metrics1\<lparr>end_time := now st, log_count := logged st,
                                              latencies_ms := latencies st\<rparr>,
                                     now st)))))"

text \<open>
  \<open>main\<close>. The size is parsed before the \<open>try\<close>, so a \<open>ValueError\<close> there leaves \<open>main\<close>
  with nothing written. Inside, \<open>except Exception\<close> appends \<open>str(e)\<close> to \<open>errors\<close> and sets
  \<open>end_time\<close>; \<open>finally\<close> calls \<open>save_client_metrics\<close>. The result is the file store, the
  list of files written (in order) and the exception that escaped, if any.
\<close>

record client_exit =
  files :: file_store
  written :: "string list"
  escaped :: "py_error option"

text \<open>Lines 77 to 81: an image size containing an \<open>x\<close> (in either case) is kept as a
  string, any other size goes through \<open>int()\<close>.\<close>

definition parse_size :: "'p client_env \<Rightarrow> string \<Rightarrow> string \<Rightarrow> py_error + data_size" where
  "parse_size env dtype size_arg =
     (if dtype = ''image'' \<and> (CHR ''x'' \<in> set size_arg \<or> CHR ''X'' \<in> set size_arg)
      then Inr (SizeStr size_arg)
      else py_bind (int_of_str env size_arg) (\<lambda>n. Inr (SizeInt n)))"

definition client_main ::
  "'p client_env \<Rightarrow> file_store \<Rightarrow> string \<Rightarrow> string \<Rightarrow> string \<Rightarrow> real \<Rightarrow> real \<Rightarrow> string \<Rightarrow>
     string \<Rightarrow> client_exit option" where
  "client_main env fs server_addr dtype size_arg frequency duration metrics_file cid =
     (case parse_size env dtype size_arg of
        Inl e \<Rightarrow> Some \<lparr>files = fs, written = [], escaped = Some e\<rparr>
      | Inr parsed_size \<Rightarrow>
          (let metrics = ClientMetrics_default
                 \<lparr>client_id := cid, data_type := dtype, data_size := parsed_size,
                  frequency_hz := frequency\<rparr>
           in case client_try env dtype parsed_size frequency duration metrics of
                None \<Rightarrow> None
              | Some (res, metrics1, clock) \<Rightarrow>
                  (let metrics2 =
                         (case res of
                            Inl e \<Rightarrow> metrics1\<lparr>errors := errors metrics1 @ [py_str e],
                                              end_time := clock\<rparr>
                          | Inr u \<Rightarrow> metrics1)
                   in case save_client_metrics fs metrics2 metrics_file of
                        Inl e \<Rightarrow> Some \<lparr>files = fs, written = [], escaped = Some e\<rparr>
                      | Inr fs' \<Rightarrow>
                          Some \<lparr>files = fs', written = [metrics_file], escaped = None\<rparr>)))"

text \<open>
  A notion used to state the pacing of the loop: the time by which a publish call
  overruns the interval (zero when \<open>rr.log\<close> returns within the interval).
\<close>

definition overrun :: "real \<Rightarrow> publish_call \<Rightarrow> real" where
  "overrun interval c = max 0 (real_of_int (elapsed_ns c) / 1000000000 - interval)"

text \<open>
  A scripted environment for concrete runs: \<open>int()\<close> reads every size as 100, the
  connection succeeds, the generator returns a unit payload, the \<open>try\<close> block is entered
  at clock 0, and the publish calls are the given ones.
\<close>

definition scripted_env :: "publish_call list \<Rightarrow> unit client_env" where
  "scripted_env calls =
     \<lparr>int_of_str = (\<lambda>s. Inr 100), connect_grpc = None,
      generate_data = (\<lambda>dtype sz seed. Inr ()), entry_clock = 0, publish_calls = calls\<rparr>"

section \<open>backends/base.py and backends/rerun/server.py: the server controller\<close>

text \<open>\<open>backends.base.ServerConfig\<close>.\<close>

record ServerConfig =
  port :: int
  memory_sample_interval_ms :: int

text \<open>
  The state of a \<open>RerunServer\<close> object, each attribute \<open>self._x\<close> as the field
  \<open>self_x\<close>: \<open>_proc\<close> (the pid of the subprocess, if one is held), \<open>_config\<close>,
  \<open>_temp_dir\<close>, \<open>_metrics\<close>, whether a monitor thread was started, and the stop event.
\<close>

record RerunServer =
  self_proc :: "nat option"
  self_config :: "ServerConfig option"
  self_temp_dir :: "string option"
  self_metrics :: ServerMetrics
  self_monitor_thread :: bool
  self_stop_event :: bool

definition RerunServer_init :: RerunServer where
  "RerunServer_init =
     \<lparr>self_proc = None, self_config = None, self_temp_dir = None,
      self_metrics = ServerMetrics_default, self_monitor_thread = False,
      self_stop_event = False\<rparr>"

text \<open>
  What one pass of the sampler loop meets: the stop event already set; a reading of the
  resident set size (bytes) followed by a reading of \<open>time.time()\<close>;
  \<open>psutil.NoSuchProcess\<close>; or any other exception.
\<close>

datatype sampler_tick =
    StopSet
  | Reading int real
  | NoSuchProcess
  | OtherException

text \<open>
  The environment of the server controller: the outcome of \<open>subprocess.Popen\<close> (a pid,
  or the exception it raised); the return code \<open>poll()\<close> reports after the warm-up sleep
  (\<open>None\<close>: still running); the bytes \<open>communicate()\<close> captured from the two pipes; the
  readings of \<open>time.time()\<close> in \<open>start\<close> and in \<open>stop\<close>; whether
  \<open>psutil.Process(pid)\<close> finds the process; the passes of the sampler loop; the return
  code \<open>poll()\<close> reports when the orchestrator asks \<open>is_running\<close>; and, for the recording
  file, whether it exists and what \<open>stat().st_size\<close> returns or raises.
\<close>

record server_env =
  popen :: "py_error + nat"
  poll_after_warmup :: "int option"
  captured_stdout :: string
  captured_stderr :: string
  clock_at_start :: real
  clock_at_stop :: real
  psutil_finds_process :: bool
  sampler_ticks :: "sampler_tick list"
  poll_at_check :: "int option"
  rrd_exists :: bool
  rrd_st_size :: "py_error + int"

text \<open>The \<open>rrd_file\<close> property.\<close>

definition RerunServer_rrd_file :: "RerunServer \<Rightarrow> py_error + string" where
  "RerunServer_rrd_file self =
     (case self_temp_dir self of
        None \<Rightarrow> Inl (RuntimeError ''Server not started'')
      | Some d \<Rightarrow> Inr (d @ ''/benchmark.rrd''))"

text \<open>
  \<open>start\<close>. The reclaim of the port (\<open>_kill_process_on_port\<close>) swallows every exception
  and touches nothing of the object, so it leaves no trace here. The result is the
  exception raised, if any, and the object.
\<close>

definition RerunServer_start ::
  "server_env \<Rightarrow> RerunServer \<Rightarrow> ServerConfig \<Rightarrow> string \<Rightarrow> (py_error + unit) \<times> RerunServer" where
  "RerunServer_start env self cfg tmp =
     (let self1 = self\<lparr>self_config := Some cfg, self_temp_dir := Some tmp,
                       self_metrics := ServerMetrics_default, self_stop_event := False\<rparr>
      in case RerunServer_rrd_file self1 of
           Inl e \<Rightarrow> (Inl e, self1)
         | Inr rrd \<Rightarrow>
             (case popen env of
                Inl e \<Rightarrow> (Inl e, self1)
              | Inr pid \<Rightarrow>
                  (let self2 = self1\<lparr>self_proc := Some pid\<rparr>
                   in case poll_after_warmup env of
                        Some returncode \<Rightarrow>
                          (case bytes_decode (captured_stdout env) of
                             Inl e \<Rightarrow> (Inl e, self2)
                           | Inr out \<Rightarrow>
                               (case bytes_decode (captured_stderr env) of
                                  Inl e \<Rightarrow> (Inl e, self2)
                                | Inr err \<Rightarrow>
                                    (Inl (RuntimeError
                                       (''Rerun server failed to start.'' @ [CHR 0x0A] @
                                        ''stdout: '' @ out @ [CHR 0x0A] @
                                        ''stderr: '' @ err)),
                                     self2)))
                      | None \<Rightarrow>
                          (Inr (),
                           self2\<lparr>self_metrics := (self_metrics self2)
                                     \<lparr>server_start_time := clock_at_start env\<rparr>,
                                  self_monitor_thread := True\<rparr>))))"

text \<open>
  The loop of \<open>_monitor_memory\<close> over the passes it meets, on the list of samples. A
  reading appends \<open>MemorySample(timestamp=time.time(), memory_mb=rss / (1024 * 1024))\<close>;
  \<open>NoSuchProcess\<close> breaks; any other exception is passed over; the set stop event ends
  the loop. The flag tells whether the loop has ended within the given passes.
\<close>

fun monitor_loop :: "sampler_tick list \<Rightarrow> MemorySample list \<Rightarrow> MemorySample list \<times> bool" where
  "monitor_loop [] samples = (samples, False)"
| "monitor_loop (StopSet # rest) samples = (samples, True)"
| "monitor_loop (Reading rss t # rest) samples =
     monitor_loop rest
       (samples @ [\<lparr>timestamp = t, memory_mb = real_of_int rss / (1024 * 1024)\<rparr>])"
| "monitor_loop (NoSuchProcess # rest) samples = (samples, True)"
| "monitor_loop (OtherException # rest) samples = monitor_loop rest samples"

text \<open>\<open>_monitor_memory\<close>: the sample list of \<open>_metrics\<close> after the thread has run through the
  passes of the environment.\<close>

definition RerunServer_monitor_memory :: "server_env \<Rightarrow> RerunServer \<Rightarrow> MemorySample list" where
  "RerunServer_monitor_memory env self =
     (if self_proc self = None \<or> self_config self = None then memory_samples (self_metrics self)
      else if \<not> psutil_finds_process env then memory_samples (self_metrics self)
      else fst (monitor_loop (sampler_ticks env) (memory_samples (self_metrics self))))"

text \<open>
  \<open>stop\<close>. Joining the monitor thread makes its appends visible; terminating and
  reaping the subprocess always succeeds (a wait that times out is followed by
  \<open>kill\<close>); the size of the recording is read when the file exists.
\<close>

definition RerunServer_stop :: "server_env \<Rightarrow> RerunServer \<Rightarrow> (py_error + unit) \<times> RerunServer" where
  "RerunServer_stop env self =
     (let self1 = self\<lparr>self_stop_event := True\<rparr>;
          self2 = (if self_monitor_thread self1
                   then self1\<lparr>self_metrics := (self_metrics self1)
                          \<lparr>memory_samples := RerunServer_monitor_memory env self1\<rparr>\<rparr>
                   else self1);
          self3 = self2\<lparr>self_metrics := (self_metrics self2)\<lparr>server_end_time := clock_at_stop env\<rparr>\<rparr>;
          self4 = self3\<lparr>self_proc := None\<rparr>
      in case RerunServer_rrd_file self4 of
           Inl e \<Rightarrow> (Inl e, self4)
         | Inr rrd \<Rightarrow>
             if rrd_exists env then
               (case rrd_st_size env of
                  Inl e \<Rightarrow> (Inl e, self4)
                | Inr st_size \<Rightarrow>
                    (Inr (),
                     self4\<lparr>self_metrics := (self_metrics self4)
                              \<lparr>rrd_file_size_mb := real_of_int st_size / (1024 * 1024)\<rparr>\<rparr>))
             else (Inr (), self4))"

definition RerunServer_get_metrics :: "RerunServer \<Rightarrow> ServerMetrics" where
  "RerunServer_get_metrics self = self_metrics self"

definition RerunServer_is_running :: "server_env \<Rightarrow> RerunServer \<Rightarrow> bool" where
  "RerunServer_is_running env self \<longleftrightarrow> self_proc self \<noteq> None \<and> poll_at_check env = None"

text \<open>\<open>str(n)\<close> of an integer, in decimal.\<close>

fun str_nat :: "nat \<Rightarrow> string" where
  "str_nat n =
     (if n < 10 then [''0123456789'' ! n]
      else str_nat (n div 10) @ [''0123456789'' ! (n mod 10)])"

definition str_int :: "int \<Rightarrow> string" where
  "str_int i = (if i < 0 then ''-'' @ str_nat (nat (- i)) else str_nat (nat i))"

definition RerunServer_get_address :: "RerunServer \<Rightarrow> py_error + string" where
  "RerunServer_get_address self =
     (case self_config self of
        None \<Rightarrow> Inl (RuntimeError ''Server not started'')
      | Some cfg \<Rightarrow> Inr (''rerun+http://127.0.0.1:'' @ str_int (port cfg) @ ''/proxy''))"

text \<open>The readings of \<open>time.time()\<close> the sampler takes, in the order it takes them.\<close>

fun tick_times :: "sampler_tick list \<Rightarrow> real list" where
  "tick_times [] = []"
| "tick_times (Reading rss t # rest) = t # tick_times rest"
| "tick_times (other # rest) = tick_times rest"

text \<open>
  A scripted environment for concrete runs of the server controller: the subprocess is
  spawned with pid 4242, its pipes hold no stdout and the given stderr, the clock reads 10 in \<open>start\<close> and 20 in \<open>stop\<close>, and the recording file
  exists. The return code at the warm-up poll, the sampler passes and the outcome of
  \<open>stat\<close> are the arguments.
\<close>

definition scripted_server ::
  "int option \<Rightarrow> string \<Rightarrow> sampler_tick list \<Rightarrow> py_error + int \<Rightarrow> server_env" where
  "scripted_server returncode err ticks st =
     \<lparr>popen = Inr 4242, poll_after_warmup = returncode, captured_stdout = [],
      captured_stderr = err, clock_at_start = 10, clock_at_stop = 20,
      psutil_finds_process = True, sampler_ticks = ticks, poll_at_check = None,
      rrd_exists = True, rrd_st_size = st\<rparr>"

section \<open>config.py, backends and runner.py: the orchestrator\<close>

text \<open>
  The configuration models of \<open>config.py\<close>. Their fields carry the class as a prefix, the
  plain names being fields of the metrics records or common variable names:
  \<open>ServerConfig.port\<close> is \<open>server_cfg_port\<close>; \<open>BackendConfig.type\<close> and \<open>.server\<close> are
  \<open>backend_cfg_type\<close> and \<open>backend_cfg_server\<close>; \<open>DataConfig.type\<close> and \<open>.size\<close> are
  \<open>data_cfg_type\<close> and \<open>data_cfg_size\<close>; a client group (\<open>config.ClientConfig\<close>) has
  \<open>group_language\<close>, \<open>group_count\<close>, \<open>group_data\<close>, \<open>group_frequency_hz\<close>; \<open>MetricsConfig\<close> has
  \<open>metrics_cfg_memory_sample_interval_ms\<close> (its \<open>server.memory_sample_interval_ms\<close>) and
  \<open>metrics_cfg_output_dir\<close>; \<open>BenchmarkConfig\<close> has \<open>bench_name\<close>, \<open>bench_description\<close>,
  \<open>bench_duration_sec\<close>, \<open>bench_backend\<close>, \<open>bench_clients\<close>, \<open>bench_metrics\<close>.
\<close>

record Config_ServerConfig =
  server_cfg_port :: int

record BackendConfig =
  backend_cfg_type :: string
  backend_cfg_server :: Config_ServerConfig

record DataConfig =
  data_cfg_type :: string
  data_cfg_size :: data_size

record Config_ClientConfig =
  group_language :: string
  group_count :: int
  group_data :: DataConfig
  group_frequency_hz :: real

record MetricsConfig =
  metrics_cfg_memory_sample_interval_ms :: int
  metrics_cfg_output_dir :: string

record BenchmarkConfig =
  bench_name :: string
  bench_description :: string
  bench_duration_sec :: real
  bench_backend :: BackendConfig
  bench_clients :: "Config_ClientConfig list"
  bench_metrics :: MetricsConfig

text \<open>\<open>config.model_dump()\<close>: the configuration as nested dictionaries.\<close>

definition Config_ClientConfig_model_dump :: "Config_ClientConfig \<Rightarrow> json" where
  "Config_ClientConfig_model_dump g =
     JDict [(''language'', JStr (group_language g)),
            (''count'', JInt (group_count g)),
            (''data'', JDict [(''type'', JStr (data_cfg_type (group_data g))),
                              (''size'', data_size_json (data_cfg_size (group_data g)))]),
            (''frequency_hz'', JFloat (group_frequency_hz g))]"

definition BenchmarkConfig_model_dump :: "BenchmarkConfig \<Rightarrow> (string \<times> json) list" where
  "BenchmarkConfig_model_dump c =
     [(''name'', JStr (bench_name c)),
      (''description'', JStr (bench_description c)),
      (''duration_sec'', JFloat (bench_duration_sec c)),
      (''backend'',
         JDict [(''type'', JStr (backend_cfg_type (bench_backend c))),
                (''server'',
                   JDict [(''port'', JInt (server_cfg_port (backend_cfg_server (bench_backend c))))])]),
      (''clients'', JList (map Config_ClientConfig_model_dump (bench_clients c))),
      (''metrics'',
         JDict [(''server'',
                   JDict [(''memory_sample_interval_ms'',
                           JInt (metrics_cfg_memory_sample_interval_ms (bench_metrics c)))]),
                (''output_dir'', JStr (metrics_cfg_output_dir (bench_metrics c)))])]"

text \<open>\<open>ServerConfig.from_config\<close> and \<open>ClientConfig.from_config\<close> of \<open>backends/base.py\<close>.\<close>

definition ServerConfig_from_config :: "BackendConfig \<Rightarrow> MetricsConfig \<Rightarrow> ServerConfig" where
  "ServerConfig_from_config backend_config metrics_config =
     \<lparr>port = server_cfg_port (backend_cfg_server backend_config),
      memory_sample_interval_ms = metrics_cfg_memory_sample_interval_ms metrics_config\<rparr>"

record ClientConfig =
  client_cfg_language :: string
  client_cfg_data_type :: string
  client_cfg_data_size :: data_size
  client_cfg_frequency_hz :: real
  client_cfg_duration_sec :: real

definition ClientConfig_from_config :: "Config_ClientConfig \<Rightarrow> real \<Rightarrow> ClientConfig" where
  "ClientConfig_from_config client_config duration =
     \<lparr>client_cfg_language = group_language client_config,
      client_cfg_data_type = data_cfg_type (group_data client_config),
      client_cfg_data_size = data_cfg_size (group_data client_config),
      client_cfg_frequency_hz = group_frequency_hz client_config,
      client_cfg_duration_sec = duration\<rparr>"

subsection \<open>The backend registry\<close>

datatype client_impl = RerunPythonClient

text \<open>A backend: its name, the languages it supports and its client factory. Every
  backend of the registry creates a \<open>RerunServer\<close>.\<close>

record backend =
  backend_name :: string
  supported_languages :: "string list"
  create_client :: "string \<Rightarrow> py_error + client_impl"

definition RerunBackend :: backend where
  "RerunBackend =
     \<lparr>backend_name = ''rerun'',
      supported_languages = [''python''],
      create_client = (\<lambda>language.
         if language = ''python'' then Inr RerunPythonClient
         else Inl (ValueError (''Unsupported language for Rerun: '' @ language @
                               ''. Supported: ['' @ [CHR 0x27] @ ''python'' @ [CHR 0x27] @ '']'')))\<rparr>"

text \<open>\<open>BACKENDS\<close> as the module leaves it after import: \<open>rerun\<close> is registered, \<open>foxglove\<close>
  is not.\<close>

definition BACKENDS :: "(string \<times> backend) list" where
  "BACKENDS = [(''rerun'', RerunBackend)]"

definition get_backend :: "string \<Rightarrow> py_error + backend" where
  "get_backend nm =
     (case map_of BACKENDS nm of
        None \<Rightarrow> Inl (ValueError (''Unknown backend: '' @ nm @ ''. Available: rerun''))
      | Some b \<Rightarrow> Inr b)"

subsection \<open>run_benchmark\<close>

text \<open>
  The effects of a run, in order: the call of \<open>server.start\<close>, the warning printed for a
  skipped group, each client process started by
  \<open>client.start(client_config, server_addr, metrics_file, client_id)\<close>, each \<open>proc.wait()\<close>,
  the call of \<open>server.stop\<close>, and the removal (or keeping) of the temporary directory. The
  progress messages printed besides the warning have no effect on the run and are left
  out.
\<close>

datatype event =
    ServerStart
  | Warning string
  | ClientStart ClientConfig string string string
  | ClientWait string
  | ServerStop
  | Rmtree string
  | TmpdirKept string

text \<open>The locals of the launch loop: \<open>client_procs\<close> (metrics file and client id of each
  started process), \<open>client_idx\<close>, and the effects so far.\<close>

record launch_state =
  client_procs :: "(string \<times> string) list"
  client_idx :: int
  events :: "event list"

text \<open>
  \<open>for i in range(client_group.count)\<close>, lines 77 to 95. \<open>spawn\<close> is the outcome of
  \<open>subprocess.Popen\<close> in \<open>client.start\<close> for the client of the given id (\<open>None\<close>: the
  process was started); an exception it raises leaves the loop before the process is
  recorded.
\<close>

fun start_clients ::
  "(string \<Rightarrow> py_error option) \<Rightarrow> ClientConfig \<Rightarrow> string \<Rightarrow> string \<Rightarrow> nat \<Rightarrow> launch_state \<Rightarrow>
     (py_error + unit) \<times> launch_state" where
  "start_clients spawn client_config server_addr tmp 0 st = (Inr (), st)"
| "start_clients spawn client_config server_addr tmp (Suc n) st =
     (let cid = ''client_'' @ str_int (client_idx st);
          metrics_file = tmp @ ''/'' @ cid @ ''_metrics.json''
      in case spawn cid of
           Some e \<Rightarrow> (Inl e, st)
         | None \<Rightarrow>
             start_clients spawn client_config server_addr tmp n
               (st\<lparr>client_procs := client_procs st @ [(metrics_file, cid)],
                   client_idx := client_idx st + 1,
                   events := events st @
                     [ClientStart client_config server_addr metrics_file cid]\<rparr>))"

definition skip_warning :: "backend \<Rightarrow> Config_ClientConfig \<Rightarrow> string" where
  "skip_warning b client_group =
     ''[yellow]Warning: Language '' @ [CHR 0x27] @ group_language client_group @ [CHR 0x27] @
     '' not supported for '' @ backend_name b @ '', skipping[/]''"

text \<open>\<open>for client_group in config.clients\<close>, lines 66 to 95.\<close>

fun launch_groups ::
  "backend \<Rightarrow> (string \<Rightarrow> py_error option) \<Rightarrow> real \<Rightarrow> string \<Rightarrow> string \<Rightarrow>
     Config_ClientConfig list \<Rightarrow> launch_state \<Rightarrow> (py_error + unit) \<times> launch_state" where
  "launch_groups b spawn duration server_addr tmp [] st = (Inr (), st)"
| "launch_groups b spawn duration server_addr tmp (client_group # rest) st =
     (if group_language client_group \<notin> set (supported_languages b) then
        launch_groups b spawn duration server_addr tmp rest
          (st\<lparr>events := events st @ [Warning (skip_warning b client_group)]\<rparr>)
      else
        (case create_client b (group_language client_group) of
           Inl e \<Rightarrow> (Inl e, st)
         | Inr client \<Rightarrow>
             (case start_clients spawn (ClientConfig_from_config client_group duration)
                     server_addr tmp (nat (group_count client_group)) st of
                (Inl e, st1) \<Rightarrow> (Inl e, st1)
              | (Inr u, st1) \<Rightarrow> launch_groups b spawn duration server_addr tmp rest st1)))"

text \<open>
  The environment of a run: the environment of the server controller, the directory
  \<open>tempfile.mkdtemp()\<close> returns, the date string \<open>datetime.now().isoformat()\<close>, the outcome
  of spawning the client process of each id, and the file store as the client processes
  have left it when the orchestrator collects metrics.
\<close>

record run_env =
  server_world :: server_env
  tmpdir :: string
  now_iso :: string
  client_spawn :: "string \<Rightarrow> py_error option"
  files_after_clients :: file_store

text \<open>The body of the inner \<open>try\<close>, lines 55 to 107: the liveness check, the launch loop,
  the no-clients check, and the wait for every client.\<close>

definition launch_and_wait ::
  "run_env \<Rightarrow> backend \<Rightarrow> BenchmarkConfig \<Rightarrow> RerunServer \<Rightarrow> (py_error + unit) \<times> launch_state" where
  "launch_and_wait env b cfg server =
     (let st0 = \<lparr>client_procs = [], client_idx = 0, events = []\<rparr>
      in if \<not> RerunServer_is_running (server_world env) server
         then (Inl (RuntimeError ''Server failed to start''), st0)
         else
           (case RerunServer_get_address server of
              Inl e \<Rightarrow> (Inl e, st0)
            | Inr server_addr \<Rightarrow>
                (case launch_groups b (client_spawn env) (bench_duration_sec cfg) server_addr
                        (tmpdir env)
                        (bench_clients cfg) st0 of
                   (Inl e, st) \<Rightarrow> (Inl e, st)
                 | (Inr u, st) \<Rightarrow>
                     if client_procs st = []
                     then (Inl (RuntimeError ''No clients started''), st)
                     else (Inr (),
                           st\<lparr>events := events st @
                                 map (\<lambda>(metrics_file, cid). ClientWait cid) (client_procs st)\<rparr>))))"

text \<open>Lines 117 to 120: every metrics file that exists is loaded.\<close>

fun collect_client_metrics :: "file_store \<Rightarrow> (string \<times> string) list \<Rightarrow> py_error + ClientMetrics list" where
  "collect_client_metrics fs [] = Inr []"
| "collect_client_metrics fs ((metrics_file, cid) # rest) =
     (if fs metrics_file \<noteq> None then
        py_bind (load_client_metrics fs metrics_file) (\<lambda>m.
        py_bind (collect_client_metrics fs rest) (\<lambda>ms. Inr (m # ms)))
      else collect_client_metrics fs rest)"

text \<open>
  \<open>run_benchmark\<close>. \<open>server.start\<close> is called inside the outer \<open>try\<close> and before the inner
  one; the inner \<open>finally\<close> calls \<open>server.stop()\<close>, and an exception raised there replaces
  the one in flight; the outer \<open>finally\<close> removes the temporary directory unless it is to
  be kept. The outcome is what the function returns or raises, and the effects in order.
\<close>

record run_outcome =
  returned :: "py_error + BenchmarkResult"
  run_trace :: "event list"

definition run_benchmark :: "run_env \<Rightarrow> BenchmarkConfig \<Rightarrow> bool \<Rightarrow> run_outcome" where
  "run_benchmark env cfg keep_tmpdir =
     (case get_backend (backend_cfg_type (bench_backend cfg)) of
        Inl e \<Rightarrow> \<lparr>returned = Inl e, run_trace = []\<rparr>
      | Inr b \<Rightarrow>
          (let result = \<lparr>name = bench_name cfg, description = bench_description cfg,
                          backend_type = backend_cfg_type (bench_backend cfg),
                          result_timestamp = now_iso env,
                          server_metrics = ServerMetrics_default, client_metrics = [],
                          config_snapshot = BenchmarkConfig_model_dump cfg\<rparr>;
               server_config = ServerConfig_from_config (bench_backend cfg) (bench_metrics cfg);
               (res, tr) =
                 (case RerunServer_start (server_world env) RerunServer_init server_config
                         (tmpdir env) of
                    (Inl e, server) \<Rightarrow> (Inl e, [ServerStart])
                  | (Inr u, server) \<Rightarrow>
                      (case launch_and_wait env b cfg server of
                         (body, st) \<Rightarrow>
                           (case RerunServer_stop (server_world env) server of
                              (Inl e, stopped) \<Rightarrow> (Inl e, ServerStart # events st @ [ServerStop])
                            | (Inr u, stopped) \<Rightarrow>
                                (case body of
                                   Inl e \<Rightarrow> (Inl e, ServerStart # events st @ [ServerStop])
                                 | Inr u \<Rightarrow>
                                     (case collect_client_metrics (files_after_clients env)
                                             (client_procs st) of
                                        Inl e \<Rightarrow> (Inl e, ServerStart # events st @ [ServerStop])
                                      | Inr loaded \<Rightarrow>
                                          (Inr (result
                                                \<lparr>server_metrics :=
                                                   RerunServer_get_metrics stopped,
                                                 client_metrics := [] @ loaded\<rparr>),
                                           ServerStart # events st @ [ServerStop]))))))
           in \<lparr>returned = res,
               run_trace = tr @ [if keep_tmpdir then TmpdirKept (tmpdir env)
                                 else Rmtree (tmpdir env)]\<rparr>))"

text \<open>Projections of a trace: the client ids started, and the warnings printed.\<close>

fun launched_clients :: "event list \<Rightarrow> string list" where
  "launched_clients [] = []"
| "launched_clients (ClientStart client_config server_addr metrics_file cid # rest) =
     cid # launched_clients rest"
| "launched_clients (other # rest) = launched_clients rest"

fun warnings :: "event list \<Rightarrow> string list" where
  "warnings [] = []"
| "warnings (Warning msg # rest) = msg # warnings rest"
| "warnings (other # rest) = warnings rest"

text \<open>The call \<open>server.start(server_config, tmpdir_path)\<close> of a run, on a fresh
  \<open>RerunServer\<close>: what it raises, if anything, and the server object after it.\<close>

definition run_server_start :: "run_env \<Rightarrow> BenchmarkConfig \<Rightarrow> (py_error + unit) \<times> RerunServer" where
  "run_server_start env cfg =
     RerunServer_start (server_world env) RerunServer_init
       (ServerConfig_from_config (bench_backend cfg) (bench_metrics cfg)) (tmpdir env)"

text \<open>The groups of a configuration that a backend can serve, and those it cannot.\<close>

definition supported_groups :: "backend \<Rightarrow> BenchmarkConfig \<Rightarrow> Config_ClientConfig list" where
  "supported_groups b cfg =
     filter (\<lambda>g. group_language g \<in> set (supported_languages b)) (bench_clients cfg)"

definition skipped_groups :: "backend \<Rightarrow> BenchmarkConfig \<Rightarrow> Config_ClientConfig list" where
  "skipped_groups b cfg =
     filter (\<lambda>g. group_language g \<notin> set (supported_languages b)) (bench_clients cfg)"

text \<open>
  Scripted inputs for concrete runs: a run environment around a server environment (the
  temporary directory is \<open>/tmp/bench\<close>, every client process can be spawned, no metrics
  file has been written), a client group
  of a language and a count, and a configuration for the \<open>rerun\<close> backend with the given
  groups.
\<close>

definition scripted_run :: "server_env \<Rightarrow> run_env" where
  "scripted_run w =
     \<lparr>server_world = w, tmpdir = ''/tmp/bench'', now_iso = ''2024-01-01T00:00:00'',
      client_spawn = (\<lambda>cid. None), files_after_clients = Map.empty\<rparr>"

definition scripted_group :: "string \<Rightarrow> int \<Rightarrow> Config_ClientConfig" where
  "scripted_group lang n =
     \<lparr>group_language = lang, group_count = n,
      group_data = \<lparr>data_cfg_type = ''points3d'', data_cfg_size = SizeInt 100\<rparr>,
      group_frequency_hz = 10\<rparr>"

definition scripted_config :: "Config_ClientConfig list \<Rightarrow> BenchmarkConfig" where
  "scripted_config groups =
     \<lparr>bench_name = ''demo'', bench_description = [], bench_duration_sec = 1,
      bench_backend = \<lparr>backend_cfg_type = ''rerun'',
                        backend_cfg_server = \<lparr>server_cfg_port = 9876\<rparr>\<rparr>,
      bench_clients = groups,
      bench_metrics = \<lparr>metrics_cfg_memory_sample_interval_ms = 100,
                        metrics_cfg_output_dir = ''./results''\<rparr>\<rparr>"

section \<open>Reference statistics, as the specification words them\<close>

text \<open>
  The specification's aggregate: each series statistic is zero on the empty series;
  otherwise the mean is the sum over the count, the median is the middle of the sorted
  series, the 99th percentile is the nearest-rank value (sort ascending, index
  \<open>floor(0.99 * n)\<close> clamped to \<open>n - 1\<close>), and the extremes are the greatest and least
  elements.
\<close>

definition spec_throughput :: "ClientMetrics \<Rightarrow> real" where
  "spec_throughput c =
     (if end_time c - start_time c \<le> 0 then 0
      else real_of_int (log_count c) / (end_time c - start_time c))"

text \<open>A file system without failures, in which the text of a file is the value written
  to it (\<open>None\<close> for the empty file, which \<open>json.load\<close> refuses) and paths are joined with
  a slash; and a small result around a list of client records.\<close>

definition scripted_io :: "json option file_io" where
  "scripted_io =
     \<lparr>io_mkdir = (\<lambda>d. None), io_joinpath = (\<lambda>d f. d @ ''/'' @ f),
      io_open_write = (\<lambda>p. None), io_empty = None, io_json_dump = (\<lambda>t. (None, Some t)),
      io_open_read = (\<lambda>p. None),
      io_json_load = (\<lambda>file_text. case file_text of
                        None \<Rightarrow> Inl (ValueError ''Expecting value: line 1 column 1 (char 0)'')
                      | Some t \<Rightarrow> Inr t)\<rparr>"

definition scripted_result :: "ClientMetrics list \<Rightarrow> BenchmarkResult" where
  "scripted_result cms =
     \<lparr>name = ''run'', description = [], backend_type = ''rerun'',
      result_timestamp = ''2025-01-01T00:00:00'',
      server_metrics = \<lparr>memory_samples = [], server_start_time = 10, server_end_time = 20,
                          rrd_file_size_mb = 0\<rparr>,
      client_metrics = cms, config_snapshot = []\<rparr>"

text \<open>The records whose throughput Python can compute: the duration is not positive (no
  division takes place) or the log count converts to a float.\<close>

definition throughput_defined :: "ClientMetrics \<Rightarrow> bool" where
  "throughput_defined c \<longleftrightarrow> end_time c - start_time c \<le> 0 \<or> fits_float (log_count c)"

definition spec_mean :: "real list \<Rightarrow> real" where
  "spec_mean xs = (if xs = [] then 0 else sum_list xs / real (length xs))"

definition spec_median :: "real list \<Rightarrow> real" where
  "spec_median xs =
     (if xs = [] then 0
      else if odd (length xs) then sort xs ! (length xs div 2)
      else (sort xs ! (length xs div 2 - 1) + sort xs ! (length xs div 2)) / 2)"

definition spec_p99 :: "real list \<Rightarrow> real" where
  "spec_p99 xs =
     (if xs = [] then 0
      else sort xs ! min (nat \<lfloor>0.99 * real (length xs)\<rfloor>) (length xs - 1))"

definition spec_max :: "real list \<Rightarrow> real" where
  "spec_max xs = (if xs = [] then 0 else Max (set xs))"

definition spec_min :: "real list \<Rightarrow> real" where
  "spec_min xs = (if xs = [] then 0 else Min (set xs))"

section \<open>Properties of the metrics model\<close>

lemma py_bind_Inr: "py_bind (Inr v) f = f v"
  by (simp add: py_bind_def)

lemma py_bind_Inl: "py_bind (Inl e) f = Inl e"
  by (simp add: py_bind_def)

lemmas py_bind_simps = py_bind_Inr py_bind_Inl

lemma throughput_value:
  "throughput_defined c \<Longrightarrow> ClientMetrics_throughput c = Inr (spec_throughput c)"
  by (auto simp: ClientMetrics_throughput_def ClientMetrics_duration_sec_def
      spec_throughput_def py_truediv_def py_int_truediv_def py_float_def py_bind_simps
      throughput_defined_def)

lemma throughput_overflow:
  "\<not> throughput_defined c \<Longrightarrow> ClientMetrics_throughput c = Inl OverflowError"
  by (auto simp: ClientMetrics_throughput_def ClientMetrics_duration_sec_def
      py_int_truediv_def py_float_def py_bind_simps throughput_defined_def)

lemma foldl_max_Max: "foldl max x rest = Max (set (x # rest))"
  for x :: real
proof -
  have "(\<lambda>a s. max s a) = (max :: real \<Rightarrow> real \<Rightarrow> real)"
    by (intro ext) (simp add: max.commute)
  then show ?thesis
    by (simp only: Max.set_eq_fold foldl_conv_fold)
qed

lemma foldl_min_Min: "foldl min x rest = Min (set (x # rest))"
  for x :: real
proof -
  have "(\<lambda>a s. min s a) = (min :: real \<Rightarrow> real \<Rightarrow> real)"
    by (intro ext) (simp add: min.commute)
  then show ?thesis
    by (simp only: Min.set_eq_fold foldl_conv_fold)
qed

lemma sort_Nil_iff: "sort xs = [] \<longleftrightarrow> xs = []"
  for xs :: "real list"
  by (metis length_sort length_0_conv)

lemma py_max_value: "xs \<noteq> [] \<Longrightarrow> py_max xs = Inr (spec_max xs)"
  by (cases xs) (simp_all add: py_max_def spec_max_def foldl_max_Max del: foldl_Cons)

lemma py_min_value: "xs \<noteq> [] \<Longrightarrow> py_min xs = Inr (spec_min xs)"
  by (cases xs) (simp_all add: py_min_def spec_min_def foldl_min_Min  del: foldl_Cons)

lemma statistics_mean_value: "xs \<noteq> [] \<Longrightarrow> statistics_mean xs = Inr (spec_mean xs)"
  by (cases xs) (simp_all add: statistics_mean_def spec_mean_def)

lemma statistics_median_value: "xs \<noteq> [] \<Longrightarrow> statistics_median xs = Inr (spec_median xs)"
  by (simp add: statistics_median_def spec_median_def py_sorted_def Let_def odd_iff_mod_2_eq_one sort_Nil_iff)

lemma p99_index:
  assumes "0 < n"
  shows "0 \<le> \<lfloor>real n * 0.99\<rfloor>" and "\<lfloor>real n * 0.99\<rfloor> < int n"
proof -
  show "0 \<le> \<lfloor>real n * 0.99\<rfloor>" by simp
  have "real n * 0.99 < real n" using assms by simp
  then show "\<lfloor>real n * 0.99\<rfloor> < int n" by (simp add: floor_less_iff)
qed

lemma p99_value:
  assumes "xs \<noteq> []"
  shows "py_getitem (py_sorted xs)
           (min \<lfloor>real (length (py_sorted xs)) * 0.99\<rfloor> (int (length (py_sorted xs)) - 1))
         = Inr (spec_p99 xs)"
proof -
  define n where "n = length xs"
  define i where "i = \<lfloor>real n * 0.99\<rfloor>"
  have n: "0 < n" using assms by (simp add: n_def)
  have i0: "0 \<le> i" and i1: "i < int n"
    using p99_index [OF n] by (simp_all only: i_def)
  have clamp: "min i (int n - 1) = i" using i1 by simp
  have "\<lfloor>0.99 * real n\<rfloor> = i" by (simp only: i_def mult.commute)
  moreover have "min (nat i) (n - 1) = nat i" using i0 i1 by linarith
  ultimately have rank: "min (nat \<lfloor>0.99 * real n\<rfloor>) (n - 1) = nat i"
    by (simp only:)
  have len: "length (py_sorted xs) = n" by (simp add: py_sorted_def n_def)
  have "py_getitem (py_sorted xs)
           (min \<lfloor>real (length (py_sorted xs)) * 0.99\<rfloor> (int (length (py_sorted xs)) - 1))
        = py_getitem (sort xs) i"
    unfolding len by (simp only: i_def [symmetric] clamp py_sorted_def)
  also have "\<dots> = Inr (sort xs ! nat i)"
    using i0 i1 by (simp add: py_getitem_def n_def)
  also have "sort xs ! nat i = spec_p99 xs"
    unfolding spec_p99_def by (simp only: assms if_False n_def [symmetric] rank)
  finally show ?thesis .
qed

lemma from_clients_loop_value:
  "list_all throughput_defined cs \<Longrightarrow>
   from_clients_loop cs (l, n, t) =
     Inr (l @ concat (map latencies_ms cs), n + sum_list (map log_count cs),
          t + sum_list (map spec_throughput cs))"
  by (induction cs arbitrary: l n t) (simp_all add: throughput_value py_bind_simps)

lemma from_clients_loop_overflow:
  "\<not> list_all throughput_defined cs \<Longrightarrow> from_clients_loop cs (l, n, t) = Inl OverflowError"
proof (induction cs arbitrary: l n t)
  case Nil
  then show ?case by simp
next
  case (Cons c cs)
  show ?case
  proof (cases "throughput_defined c")
    case True
    with Cons show ?thesis by (simp add: throughput_value py_bind_simps)
  next
    case False
    then show ?thesis by (simp add: throughput_overflow py_bind_simps)
  qed
qed

lemma from_clients_overflow:
  assumes "\<not> list_all throughput_defined clients"
  shows "AggregatedClientMetrics_from_clients clients = Inl OverflowError"
proof -
  from assms have "clients \<noteq> []" by auto
  then show ?thesis
    by (simp add: AggregatedClientMetrics_from_clients_def
        from_clients_loop_overflow [OF assms] py_bind_simps)
qed

lemma from_clients_value:
  assumes ok: "list_all throughput_defined clients"
  shows "AggregatedClientMetrics_from_clients clients = Inr
     \<lparr>total_log_count = sum_list (map log_count clients),
      total_throughput = sum_list (map spec_throughput clients),
      latency_mean_ms = spec_mean (concat (map latencies_ms clients)),
      latency_p50_ms = spec_median (concat (map latencies_ms clients)),
      latency_p99_ms = spec_p99 (concat (map latencies_ms clients)),
      latency_max_ms = spec_max (concat (map latencies_ms clients)),
      latency_min_ms = spec_min (concat (map latencies_ms clients)),
      client_count = int (length clients)\<rparr>"
proof (cases "clients = []")
  case True
  then show ?thesis
    by (simp add: AggregatedClientMetrics_from_clients_def AggregatedClientMetrics_default_def
        spec_mean_def spec_median_def spec_p99_def spec_max_def spec_min_def)
next
  case False
  let ?all = "concat (map latencies_ms clients)"
  show ?thesis
  proof (cases "?all = []")
    case True
    with False show ?thesis
      by (simp add: AggregatedClientMetrics_from_clients_def
          AggregatedClientMetrics_default_def from_clients_loop_value [OF ok] py_bind_simps
          spec_mean_def spec_median_def spec_p99_def spec_max_def spec_min_def)
  next
    case ne: False
    note p = p99_value [OF ne]
    from False ne show ?thesis
      unfolding AggregatedClientMetrics_from_clients_def Let_def from_clients_loop_value [OF ok]
        py_bind_simps
      by (simp only: append_Nil prod.case py_bind_simps p)
         (simp add: AggregatedClientMetrics_default_def statistics_mean_value
            statistics_median_value py_max_value py_min_value py_bind_simps)
  qed
qed

lemma overflowing_client:
  "\<not> throughput_defined (ClientMetrics_default \<lparr>log_count := 2 ^ 1024, end_time := 1\<rparr>)"
  by (simp add: throughput_defined_def fits_float_def ClientMetrics_default_def)

text \<open>
  Claim C1, as amended. For every list of client records in which each client's throughput
  can be computed (its duration is not positive, or its \<open>log_count\<close> is within the range of
  a float), the empty list included, \<open>AggregatedClientMetrics.from_clients\<close> returns the
  aggregate whose \<open>total_log_count\<close> is the sum of the clients' \<open>log_count\<close>, whose
  \<open>total_throughput\<close> is the sum of each client's own throughput (its \<open>log_count\<close> over its
  own duration), whose \<open>client_count\<close> is the length of the list, and whose latency
  statistics are those of the concatenation of the clients' \<open>latencies_ms\<close>; on the empty
  list every field is zero. For every other list it raises \<open>OverflowError\<close>.
\<close>

theorem from_clients_aggregate:
  "AggregatedClientMetrics_from_clients clients =
     (if list_all throughput_defined clients then Inr
     \<lparr>total_log_count = sum_list (map log_count clients),
      total_throughput = sum_list (map spec_throughput clients),
      latency_mean_ms = spec_mean (concat (map latencies_ms clients)),
      latency_p50_ms = spec_median (concat (map latencies_ms clients)),
      latency_p99_ms = spec_p99 (concat (map latencies_ms clients)),
      latency_max_ms = spec_max (concat (map latencies_ms clients)),
      latency_min_ms = spec_min (concat (map latencies_ms clients)),
      client_count = int (length clients)\<rparr>
      else Inl OverflowError)
   \<and> AggregatedClientMetrics_from_clients [] = Inr
     \<lparr>total_log_count = 0, total_throughput = 0, latency_mean_ms = 0, latency_p50_ms = 0,
      latency_p99_ms = 0, latency_max_ms = 0, latency_min_ms = 0, client_count = 0\<rparr>"
proof
  show "AggregatedClientMetrics_from_clients clients =
     (if list_all throughput_defined clients then Inr
     \<lparr>total_log_count = sum_list (map log_count clients),
      total_throughput = sum_list (map spec_throughput clients),
      latency_mean_ms = spec_mean (concat (map latencies_ms clients)),
      latency_p50_ms = spec_median (concat (map latencies_ms clients)),
      latency_p99_ms = spec_p99 (concat (map latencies_ms clients)),
      latency_max_ms = spec_max (concat (map latencies_ms clients)),
      latency_min_ms = spec_min (concat (map latencies_ms clients)),
      client_count = int (length clients)\<rparr>
      else Inl OverflowError)"
  proof (cases "list_all throughput_defined clients")
    case True
    then show ?thesis by (simp only: from_clients_value [OF True] if_True)
  next
    case False
    then show ?thesis by (simp only: from_clients_overflow [OF False] if_False)
  qed
next
  show "AggregatedClientMetrics_from_clients [] = Inr
     \<lparr>total_log_count = 0, total_throughput = 0, latency_mean_ms = 0, latency_p50_ms = 0,
      latency_p99_ms = 0, latency_max_ms = 0, latency_min_ms = 0, client_count = 0\<rparr>"
    by (simp add: AggregatedClientMetrics_from_clients_def AggregatedClientMetrics_default_def)
qed

text \<open>
  The claim as the specification words it ("for every list ... returns an aggregate")
  fails on a single client that logged \<open>2^1024\<close> messages in one second: the division of
  its throughput cannot convert the count.
\<close>

theorem huge_count_aggregate_counterexample:
  "AggregatedClientMetrics_from_clients
     [ClientMetrics_default \<lparr>log_count := 2 ^ 1024, end_time := 1\<rparr>] = Inl OverflowError"
  using overflowing_client by (simp add: from_clients_overflow)

lemma sort_one_to_hundred: "sort (map real [1..<101]) = map real [1..<101]"
  by (rule sorted_sort_id) (simp add: sorted_map sorted_wrt_iff_nth_less)

text \<open>
  Claim C2. The p99 of a latency series of length \<open>n\<close> is the nearest-rank value: the
  series is sorted ascending and the element at index \<open>floor(0.99 * n)\<close>, clamped to
  \<open>n - 1\<close>, is returned. For the series 1, 2, ..., 100 the p99 is 100, and for the empty
  series it is 0.
\<close>

theorem latency_p99_nearest_rank:
  "ClientMetrics_latency_p99_ms c =
     Inr (if latencies_ms c = [] then 0
          else sort (latencies_ms c) !
                 min (nat \<lfloor>0.99 * real (length (latencies_ms c))\<rfloor>)
                     (length (latencies_ms c) - 1))
   \<and> ClientMetrics_latency_p99_ms
         (ClientMetrics_default\<lparr>latencies_ms := map real [1..<101]\<rparr>) = Inr 100
   \<and> ClientMetrics_latency_p99_ms (ClientMetrics_default\<lparr>latencies_ms := []\<rparr>) = Inr 0"
proof (intro conjI)
  show "ClientMetrics_latency_p99_ms c =
     Inr (if latencies_ms c = [] then 0
          else sort (latencies_ms c) !
                 min (nat \<lfloor>0.99 * real (length (latencies_ms c))\<rfloor>)
                     (length (latencies_ms c) - 1))"
  proof (cases "latencies_ms c = []")
    case True
    then show ?thesis by (simp add: ClientMetrics_latency_p99_ms_def)
  next
    case False
    have "ClientMetrics_latency_p99_ms c = Inr (spec_p99 (latencies_ms c))"
      unfolding ClientMetrics_latency_p99_ms_def Let_def
      by (simp only: False if_False p99_value [OF False])
    with False show ?thesis by (simp only: spec_p99_def if_False)
  qed
next
  show "ClientMetrics_latency_p99_ms
         (ClientMetrics_default\<lparr>latencies_ms := map real [1..<101]\<rparr>) = Inr 100"
    using sort_one_to_hundred
    by (simp add: ClientMetrics_latency_p99_ms_def Let_def py_sorted_def py_getitem_def
        del: upt_Suc)
next
  show "ClientMetrics_latency_p99_ms (ClientMetrics_default\<lparr>latencies_ms := []\<rparr>) = Inr 0"
    by (simp add: ClientMetrics_latency_p99_ms_def)
qed

text \<open>
  Claim C10, as amended. \<open>ClientMetrics.throughput\<close>: when the duration
  \<open>end_time - start_time\<close> is zero or negative it returns 0.0 and performs no division;
  otherwise, when \<open>log_count\<close> is within the range of a float (its magnitude is below
  \<open>2^1024 - 2^970\<close>), it returns \<open>log_count\<close> divided by that duration; and otherwise it
  raises \<open>OverflowError\<close>.
\<close>

theorem throughput_total:
  "ClientMetrics_throughput c =
     (if end_time c - start_time c \<le> 0 then Inr 0
      else if \<bar>log_count c\<bar> < 2 ^ 1024 - 2 ^ 970
        then Inr (real_of_int (log_count c) / (end_time c - start_time c))
      else Inl OverflowError)"
  by (simp add: ClientMetrics_throughput_def ClientMetrics_duration_sec_def py_truediv_def
      py_int_truediv_def py_float_def fits_float_def py_bind_simps)

text \<open>
  The claim as the specification words it ("total at the public interface") fails on a
  record with a positive duration and a count of \<open>2^1024\<close>.
\<close>

theorem huge_count_throughput_counterexample:
  "ClientMetrics_throughput (ClientMetrics_default \<lparr>log_count := 2 ^ 1024, end_time := 1\<rparr>)
     = Inl OverflowError"
  by (simp add: ClientMetrics_throughput_def ClientMetrics_duration_sec_def py_truediv_def
      py_int_truediv_def py_float_def fits_float_def py_bind_simps ClientMetrics_default_def)

section \<open>The persisted form reloads to the same result\<close>

lemma for_each_floats: "py_for_each as_float (map JFloat xs) = Inr xs"
  by (induction xs) (simp_all add: py_bind_simps)

lemma for_each_strs: "py_for_each as_str (map JStr xs) = Inr xs"
  by (induction xs) (simp_all add: py_bind_simps)

lemma MemorySample_round_trip: "MemorySample_of_json (MemorySample_json s) = Inr s"
  by (simp add: MemorySample_of_json_def MemorySample_json_def py_bind_simps dict_getitem_def)

lemma for_each_samples: "py_for_each MemorySample_of_json (map MemorySample_json xs) = Inr xs"
  by (induction xs) (simp_all add: py_bind_simps MemorySample_round_trip)

lemma peak_total: "\<exists>v. ServerMetrics_memory_peak_mb m = Inr v"
  by (cases "memory_samples m") (simp_all add: ServerMetrics_memory_peak_mb_def py_max_def)

lemma avg_total: "\<exists>v. ServerMetrics_memory_avg_mb m = Inr v"
  by (cases "memory_samples m") (simp_all add: ServerMetrics_memory_avg_mb_def statistics_mean_def)

lemma ServerMetrics_round_trip:
  "\<exists>d. ServerMetrics_to_dict m = Inr d \<and> ServerMetrics_from_dict d = Inr m"
proof -
  obtain p where p: "ServerMetrics_memory_peak_mb m = Inr p" using peak_total by blast
  obtain a where a: "ServerMetrics_memory_avg_mb m = Inr a" using avg_total by blast
  show ?thesis
    by (simp add: ServerMetrics_to_dict_def p a py_bind_simps ServerMetrics_from_dict_def
        dict_get_def for_each_samples)
qed

lemma as_data_size_round_trip: "as_data_size (data_size_json z) = Inr z"
  by (cases z) simp_all

lemma ClientMetrics_stats_value:
  "ClientMetrics_latency_mean_ms c = Inr (spec_mean (latencies_ms c))"
  "ClientMetrics_latency_p50_ms c = Inr (spec_median (latencies_ms c))"
  "ClientMetrics_latency_p99_ms c = Inr (spec_p99 (latencies_ms c))"
  "ClientMetrics_latency_max_ms c = Inr (spec_max (latencies_ms c))"
  "ClientMetrics_latency_min_ms c = Inr (spec_min (latencies_ms c))"
proof -
  show "ClientMetrics_latency_mean_ms c = Inr (spec_mean (latencies_ms c))"
    by (cases "latencies_ms c = []")
       (simp_all add: ClientMetrics_latency_mean_ms_def statistics_mean_value, simp add: spec_mean_def)
  show "ClientMetrics_latency_p50_ms c = Inr (spec_median (latencies_ms c))"
    by (cases "latencies_ms c = []")
       (simp_all add: ClientMetrics_latency_p50_ms_def statistics_median_value, simp add: spec_median_def)
  show "ClientMetrics_latency_max_ms c = Inr (spec_max (latencies_ms c))"
    by (cases "latencies_ms c = []")
       (simp_all add: ClientMetrics_latency_max_ms_def py_max_value, simp add: spec_max_def)
  show "ClientMetrics_latency_min_ms c = Inr (spec_min (latencies_ms c))"
    by (cases "latencies_ms c = []")
       (simp_all add: ClientMetrics_latency_min_ms_def py_min_value, simp add: spec_min_def)
  show "ClientMetrics_latency_p99_ms c = Inr (spec_p99 (latencies_ms c))"
  proof (cases "latencies_ms c = []")
    case True
    then show ?thesis by (simp add: ClientMetrics_latency_p99_ms_def spec_p99_def)
  next
    case False
    show ?thesis
      unfolding ClientMetrics_latency_p99_ms_def Let_def
      by (simp only: False if_False p99_value [OF False])
  qed
qed

lemma ClientMetrics_round_trip:
  assumes "throughput_defined c"
  shows "\<exists>d. ClientMetrics_to_dict c = Inr d \<and> ClientMetrics_from_dict d = Inr c"
  by (simp add: ClientMetrics_to_dict_def ClientMetrics_stats_value throughput_value [OF assms]
      py_bind_simps ClientMetrics_from_dict_def dict_get_def for_each_floats for_each_strs
      as_data_size_round_trip)

lemma ClientMetrics_to_dict_overflow:
  assumes "\<not> throughput_defined c"
  shows "ClientMetrics_to_dict c = Inl OverflowError"
  by (simp add: ClientMetrics_to_dict_def ClientMetrics_stats_value
      throughput_overflow [OF assms] py_bind_simps)


lemma for_each_clients:
  "list_all throughput_defined cs \<Longrightarrow>
   \<exists>ds. py_for_each ClientMetrics_to_dict cs = Inr ds \<and>
        py_for_each (\<lambda>c. py_bind (as_dict c) ClientMetrics_from_dict) (map JDict ds) = Inr cs"
proof (induction cs)
  case Nil
  show ?case by simp
next
  case (Cons c cs)
  obtain d where d: "ClientMetrics_to_dict c = Inr d" "ClientMetrics_from_dict d = Inr c"
    using ClientMetrics_round_trip Cons.prems by auto
  from Cons obtain ds where ds: "py_for_each ClientMetrics_to_dict cs = Inr ds"
    "py_for_each (\<lambda>c. py_bind (as_dict c) ClientMetrics_from_dict) (map JDict ds) = Inr cs"
    by auto
  show ?case by (simp add: d ds py_bind_simps)
qed

lemma BenchmarkResult_to_dict_total:
  assumes ok: "list_all throughput_defined (client_metrics r)"
  shows "\<exists>sm cms agg. ServerMetrics_to_dict (server_metrics r) = Inr sm \<and>
     ServerMetrics_from_dict sm = Inr (server_metrics r) \<and>
     py_for_each ClientMetrics_to_dict (client_metrics r) = Inr cms \<and>
     py_for_each (\<lambda>c. py_bind (as_dict c) ClientMetrics_from_dict) (map JDict cms)
       = Inr (client_metrics r) \<and>
     BenchmarkResult_aggregated_client_metrics r = Inr agg"
  using ServerMetrics_round_trip [of "server_metrics r"] for_each_clients [OF ok]
    from_clients_value [OF ok]
  unfolding BenchmarkResult_aggregated_client_metrics_def by blast

lemma for_each_clients_overflow:
  "\<not> list_all throughput_defined cs \<Longrightarrow>
   py_for_each ClientMetrics_to_dict cs = Inl OverflowError"
proof (induction cs)
  case Nil
  then show ?case by simp
next
  case (Cons c cs)
  show ?case
  proof (cases "throughput_defined c")
    case True
    then obtain d where "ClientMetrics_to_dict c = Inr d"
      using ClientMetrics_round_trip by blast
    with Cons True show ?thesis by (simp add: py_bind_simps)
  next
    case False
    then show ?thesis by (simp add: ClientMetrics_to_dict_overflow py_bind_simps)
  qed
qed

lemma BenchmarkResult_to_dict_overflow:
  assumes "\<not> list_all throughput_defined (client_metrics r)"
  shows "BenchmarkResult_to_dict r = Inl OverflowError"
proof -
  obtain sm where "ServerMetrics_to_dict (server_metrics r) = Inr sm"
    using ServerMetrics_round_trip by blast
  then show ?thesis
    by (simp add: BenchmarkResult_to_dict_def py_bind_simps for_each_clients_overflow [OF assms])
qed

lemma BenchmarkResult_to_dict_defined:
  "(if list_all throughput_defined (client_metrics r)
    then \<exists>d. BenchmarkResult_to_dict r = Inr d
    else BenchmarkResult_to_dict r = Inl OverflowError)"
proof (cases "list_all throughput_defined (client_metrics r)")
  case True
  from BenchmarkResult_to_dict_total [OF True] obtain sm cms agg where
    "ServerMetrics_to_dict (server_metrics r) = Inr sm"
    "py_for_each ClientMetrics_to_dict (client_metrics r) = Inr cms"
    "BenchmarkResult_aggregated_client_metrics r = Inr agg"
    by blast
  then have "\<exists>d. BenchmarkResult_to_dict r = Inr d"
    by (simp add: BenchmarkResult_to_dict_def py_bind_simps)
  with True show ?thesis by simp
next
  case False
  then show ?thesis by (simp add: BenchmarkResult_to_dict_overflow)
qed

lemma load_written:
  assumes d: "BenchmarkResult_to_dict r = Inr d"
    and stored: "fs path = Some file_text"
    and readable: "io_open_read io path = None"
    and parsed: "io_json_load io file_text = Inr (JDict d)"
  shows "BenchmarkResult_load io fs path = Inr r"
proof -
  have ok: "list_all throughput_defined (client_metrics r)"
    using BenchmarkResult_to_dict_overflow [of r] d by auto
  obtain sm cms agg where parts:
    "ServerMetrics_to_dict (server_metrics r) = Inr sm"
    "ServerMetrics_from_dict sm = Inr (server_metrics r)"
    "py_for_each ClientMetrics_to_dict (client_metrics r) = Inr cms"
    "py_for_each (\<lambda>c. py_bind (as_dict c) ClientMetrics_from_dict) (map JDict cms)
       = Inr (client_metrics r)"
    "BenchmarkResult_aggregated_client_metrics r = Inr agg"
    using BenchmarkResult_to_dict_total [OF ok] by blast
  from d have d_eq: "d =
    [(''name'', JStr (name r)),
     (''description'', JStr (description r)),
     (''backend_type'', JStr (backend_type r)),
     (''timestamp'', JStr (result_timestamp r)),
     (''server_metrics'', JDict sm),
     (''client_metrics'', JList (map JDict cms)),
     (''aggregated_client_metrics'', JDict (AggregatedClientMetrics_to_dict agg)),
     (''config_snapshot'', JDict (config_snapshot r))]"
    by (simp add: BenchmarkResult_to_dict_def parts py_bind_simps)
  show ?thesis
    by (simp add: BenchmarkResult_load_def stored readable parsed d_eq parts py_bind_simps
        dict_getitem_def dict_get_def)
qed

lemma save_returns:
  "BenchmarkResult_save io fs r output_dir ts = (Inr path, fs') \<longleftrightarrow>
     io_mkdir io output_dir = None \<and>
     path = io_joinpath io output_dir (name r @ ''_'' @ ts @ ''.json'') \<and>
     io_open_write io path = None \<and>
     (\<exists>d. BenchmarkResult_to_dict r = Inr d \<and> fst (io_json_dump io (JDict d)) = None \<and>
          fs' = fs(path \<mapsto> snd (io_json_dump io (JDict d))))"
  by (auto simp: BenchmarkResult_save_def Let_def split: option.splits sum.splits prod.splits)

text \<open>
  Claim C3, as amended. \<open>save\<close> returns exactly when the output directory can be
  created, the file can be opened for writing, \<open>to_dict\<close> returns and \<open>json.dump\<close> writes
  its value to the end; \<open>to_dict\<close> returns when the throughput of every client record can
  be computed and raises \<open>OverflowError\<close> otherwise. Whenever \<open>save\<close> has returned a path,
  that file can be opened for reading and \<open>json.load\<close> turns the text \<open>json.dump\<close> wrote
  back into the value it was given, \<open>load\<close> of that path (through the \<open>from_dict\<close>
  readers) returns a result equal to the saved one in every field: the same
  \<open>server_metrics\<close> (samples, start and end time, artifact size), the same
  \<open>client_metrics\<close> records and the same \<open>config_snapshot\<close>.
\<close>

theorem result_round_trip:
  "((\<exists>p fs1. BenchmarkResult_save io fs r output_dir ts = (Inr p, fs1)) \<longleftrightarrow>
      io_mkdir io output_dir = None \<and>
      io_open_write io (io_joinpath io output_dir (name r @ ''_'' @ ts @ ''.json'')) = None \<and>
      (\<exists>d. BenchmarkResult_to_dict r = Inr d \<and> fst (io_json_dump io (JDict d)) = None))
   \<and> (if list_all throughput_defined (client_metrics r)
        then \<exists>d. BenchmarkResult_to_dict r = Inr d
        else BenchmarkResult_to_dict r = Inl OverflowError)
   \<and> (BenchmarkResult_save io fs r output_dir ts = (Inr path, fs') \<and>
        io_open_read io path = None \<and>
        (\<exists>d. BenchmarkResult_to_dict r = Inr d \<and>
             io_json_load io (snd (io_json_dump io (JDict d))) = Inr (JDict d))
        \<longrightarrow> BenchmarkResult_load io fs' path = Inr r)"
proof (intro conjI impI)
  show "(\<exists>p fs1. BenchmarkResult_save io fs r output_dir ts = (Inr p, fs1)) \<longleftrightarrow>
      io_mkdir io output_dir = None \<and>
      io_open_write io (io_joinpath io output_dir (name r @ ''_'' @ ts @ ''.json'')) = None \<and>
      (\<exists>d. BenchmarkResult_to_dict r = Inr d \<and> fst (io_json_dump io (JDict d)) = None)"
    unfolding save_returns by auto
next
  show "if list_all throughput_defined (client_metrics r)
        then \<exists>d. BenchmarkResult_to_dict r = Inr d
        else BenchmarkResult_to_dict r = Inl OverflowError"
    by (rule BenchmarkResult_to_dict_defined)
next
  assume a: "BenchmarkResult_save io fs r output_dir ts = (Inr path, fs') \<and>
        io_open_read io path = None \<and>
        (\<exists>d. BenchmarkResult_to_dict r = Inr d \<and>
             io_json_load io (snd (io_json_dump io (JDict d))) = Inr (JDict d))"
  then obtain d where d: "BenchmarkResult_to_dict r = Inr d"
    and parsed: "io_json_load io (snd (io_json_dump io (JDict d))) = Inr (JDict d)"
    by blast
  from a d have stored: "fs' path = Some (snd (io_json_dump io (JDict d)))"
    unfolding save_returns by auto
  from a have readable: "io_open_read io path = None" by blast
  show "BenchmarkResult_load io fs' path = Inr r"
    using d stored readable parsed by (rule load_written)
qed

text \<open>
  A result with one client that logged ten messages in one second is saved and read back
  in a file system without failures.
\<close>

theorem result_round_trip_witness:
  "\<exists>p fs1.
     BenchmarkResult_save scripted_io Map.empty
       (scripted_result [ClientMetrics_default \<lparr>log_count := 10, end_time := 1\<rparr>])
       ''results'' ''20250101_000000'' = (Inr p, fs1) \<and>
     BenchmarkResult_load scripted_io fs1 p
       = Inr (scripted_result [ClientMetrics_default \<lparr>log_count := 10, end_time := 1\<rparr>])"
proof -
  let ?r = "scripted_result [ClientMetrics_default \<lparr>log_count := 10, end_time := 1\<rparr>]"
  note t = result_round_trip [where io = scripted_io and fs = Map.empty and r = ?r
      and output_dir = "''results''" and ts = "''20250101_000000''"]
  have ok: "list_all throughput_defined (client_metrics ?r)"
    by (simp add: scripted_result_def throughput_defined_def fits_float_def
        ClientMetrics_default_def)
  from t [THEN conjunct2, THEN conjunct1] ok obtain d where
    d: "BenchmarkResult_to_dict ?r = Inr d"
    by auto
  have "\<exists>p fs1. BenchmarkResult_save scripted_io Map.empty ?r ''results'' ''20250101_000000''
          = (Inr p, fs1)"
    unfolding t [THEN conjunct1] using d by (simp add: scripted_io_def)
  then obtain p fs1 where
    s: "BenchmarkResult_save scripted_io Map.empty ?r ''results'' ''20250101_000000'' = (Inr p, fs1)"
    by blast
  have "BenchmarkResult_load scripted_io fs1 p = Inr ?r"
    using result_round_trip [where io = scripted_io and fs = Map.empty and r = ?r
        and output_dir = "''results''" and ts = "''20250101_000000''" and path = p
        and fs' = fs1] s d
    by (simp add: scripted_io_def)
  with s show ?thesis by blast
qed

text \<open>
  The claim as the specification words it ("for every \<open>BenchmarkResult\<close>") fails on two results that
  cannot be saved. With a client that logged \<open>2^1024\<close> messages in one second \<open>to_dict\<close>
  raises \<open>OverflowError\<close> after the file was opened, \<open>save\<close> raises it, and the empty
  file left behind does not load. With the name \<open>a/b\<close> the file would lie in a directory
  \<open>results/a\<close> that \<open>save\<close> never creates, so \<open>open\<close> raises \<open>FileNotFoundError\<close>.
\<close>

theorem unsaved_result_counterexample:
  "BenchmarkResult_save scripted_io Map.empty
     (scripted_result [ClientMetrics_default \<lparr>log_count := 2 ^ 1024, end_time := 1\<rparr>])
     ''results'' ''20250101_000000''
     = (Inl OverflowError, [''results/run_20250101_000000.json'' \<mapsto> None])
   \<and> BenchmarkResult_load scripted_io [''results/run_20250101_000000.json'' \<mapsto> None]
       ''results/run_20250101_000000.json''
     = Inl (ValueError ''Expecting value: line 1 column 1 (char 0)'')
   \<and> fst (BenchmarkResult_save
       (scripted_io \<lparr>io_open_write := (\<lambda>p.
          if p = ''results/a/b_20250101_000000.json'' then Some (FileNotFoundError p)
          else None)\<rparr>)
       Map.empty ((scripted_result []) \<lparr>name := ''a/b''\<rparr>) ''results'' ''20250101_000000'')
     = Inl (FileNotFoundError ''results/a/b_20250101_000000.json'')"
proof (intro conjI)
  have "\<not> list_all throughput_defined (client_metrics
          (scripted_result [ClientMetrics_default \<lparr>log_count := 2 ^ 1024, end_time := 1\<rparr>]))"
    using overflowing_client by (simp add: scripted_result_def)
  from BenchmarkResult_to_dict_overflow [OF this]
  show "BenchmarkResult_save scripted_io Map.empty
     (scripted_result [ClientMetrics_default \<lparr>log_count := 2 ^ 1024, end_time := 1\<rparr>])
     ''results'' ''20250101_000000''
     = (Inl OverflowError, [''results/run_20250101_000000.json'' \<mapsto> None])"
    by (simp add: BenchmarkResult_save_def Let_def scripted_io_def)
       (simp add: scripted_result_def)
next
  show "BenchmarkResult_load scripted_io [''results/run_20250101_000000.json'' \<mapsto> None]
       ''results/run_20250101_000000.json''
     = Inl (ValueError ''Expecting value: line 1 column 1 (char 0)'')"
    by (simp add: BenchmarkResult_load_def scripted_io_def py_bind_simps)
next
  show "fst (BenchmarkResult_save
       (scripted_io \<lparr>io_open_write := (\<lambda>p.
          if p = ''results/a/b_20250101_000000.json'' then Some (FileNotFoundError p)
          else None)\<rparr>)
       Map.empty ((scripted_result []) \<lparr>name := ''a/b''\<rparr>) ''results'' ''20250101_000000'')
     = Inl (FileNotFoundError ''results/a/b_20250101_000000.json'')"
    by (simp add: BenchmarkResult_save_def Let_def scripted_io_def scripted_result_def)
qed

section \<open>The client process: pacing and the metrics file\<close>

lemma iteration_step:
  assumes "publish_iteration gen p call st = (Inr (), st')"
  shows "logged st' = logged st + 1"
    and "now st' =
           (if now st + real_of_int (elapsed_ns call) / 1000000000
                 < lp_start_time p + real_of_int (logged st + 1) * lp_interval p
            then lp_start_time p + real_of_int (logged st + 1) * lp_interval p + oversleep call
            else now st + real_of_int (elapsed_ns call) / 1000000000)"
  using assms unfolding publish_iteration_def Let_def
  by (auto split: sum.splits option.splits if_splits)

lemma iteration_returns:
  assumes "outcome call = None" and "0 \<le> logged st" and "logged st < regen_interval"
  shows "\<exists>st'. publish_iteration gen p call st = (Inr (), st')"
proof -
  have nr: "(logged st mod regen_interval = 0 \<and> logged st > 0) = False"
    using assms by simp
  show ?thesis
    unfolding publish_iteration_def Let_def nr if_False sum.case assms(1) option.case
    by blast
qed

lemma loop_stops_late:
  "publish_loop gen p calls st = Some (Inr (), st') \<Longrightarrow> lp_end_time p \<le> now st'"
proof (induction calls arbitrary: st)
  case Nil
  then show ?case by (simp split: if_splits)
next
  case (Cons c calls)
  show ?case
  proof (cases "now st < lp_end_time p")
    case False
    with Cons.prems show ?thesis by simp
  next
    case True
    obtain r st1 where it: "publish_iteration gen p c st = (r, st1)"
      by (cases "publish_iteration gen p c st")
    with Cons.prems True show ?thesis
      by (cases r) (auto intro: Cons.IH)
  qed
qed

lemma loop_counts_up:
  "publish_loop gen p calls st = Some (Inr (), st') \<Longrightarrow> logged st \<le> logged st'"
proof (induction calls arbitrary: st)
  case Nil
  then show ?case by (simp split: if_splits)
next
  case (Cons c calls)
  show ?case
  proof (cases "now st < lp_end_time p")
    case False
    with Cons.prems show ?thesis by simp
  next
    case True
    obtain r st1 where it: "publish_iteration gen p c st = (r, st1)"
      by (cases "publish_iteration gen p c st")
    show ?thesis
    proof (cases r)
      case (Inl e)
      with Cons.prems True it show ?thesis by simp
    next
      case (Inr u)
      with Cons.prems True it have "publish_loop gen p calls st1 = Some (Inr (), st')" by simp
      from Cons.IH [OF this] iteration_step(1) [of gen p c st st1] it Inr
      show ?thesis by simp
    qed
  qed
qed

text \<open>An iteration never begins a whole interval before its target when no sleep wakes a
  whole interval early.\<close>

lemma iteration_keeps_pace:
  assumes it: "publish_iteration gen p c st = (Inr (), st1)"
    and early: "- lp_interval p < oversleep c"
    and pos: "0 < lp_interval p"
  shows "lp_start_time p + (real_of_int (logged st1) - 1) * lp_interval p < now st1"
proof -
  note s = iteration_step [OF it]
  show ?thesis
    unfolding s using early pos by (simp add: algebra_simps)
qed

lemma loop_count_upper:
  assumes "publish_loop gen p calls st = Some (Inr (), st')"
    and "\<forall>c \<in> set calls. - lp_interval p < oversleep c"
    and "0 < lp_interval p"
    and "lp_start_time p + (real_of_int (logged st) - 1) * lp_interval p < now st"
  shows "logged st' = logged st \<or>
         lp_start_time p + (real_of_int (logged st') - 2) * lp_interval p < lp_end_time p"
  using assms
proof (induction calls arbitrary: st)
  case Nil
  then show ?case by (simp split: if_splits)
next
  case (Cons c calls)
  show ?case
  proof (cases "now st < lp_end_time p")
    case False
    with Cons.prems show ?thesis by simp
  next
    case True
    obtain r st1 where it: "publish_iteration gen p c st = (r, st1)"
      by (cases "publish_iteration gen p c st")
    show ?thesis
    proof (cases r)
      case (Inl e)
      with Cons.prems True it show ?thesis by simp
    next
      case (Inr u)
      with it have it': "publish_iteration gen p c st = (Inr (), st1)" by simp
      from Cons.prems True it' have rest: "publish_loop gen p calls st1 = Some (Inr (), st')"
        by simp
      have pace: "lp_start_time p + (real_of_int (logged st1) - 1) * lp_interval p < now st1"
        using iteration_keeps_pace [OF it'] Cons.prems by simp
      from Cons.IH [OF rest _ Cons.prems(3) pace] Cons.prems(2)
      have "logged st' = logged st1 \<or>
         lp_start_time p + (real_of_int (logged st') - 2) * lp_interval p < lp_end_time p"
        by simp
      moreover have "logged st1 = logged st + 1" by (rule iteration_step(1) [OF it'])
      moreover have "lp_start_time p + (real_of_int (logged st) - 1) * lp_interval p
                       < lp_end_time p"
        using Cons.prems(4) True by simp
      ultimately show ?thesis by auto
    qed
  qed
qed

lemma loop_completes:
  assumes "\<forall>c \<in> set calls. outcome c = None \<and> - lp_interval p < oversleep c"
    and "0 < lp_interval p"
    and "0 \<le> logged st"
    and "lp_start_time p + (real_of_int (logged st) - 1) * lp_interval p < now st"
    and "lp_end_time p \<le> lp_start_time p + 99 * lp_interval p"
    and "lp_end_time p \<le>
           lp_start_time p + (real_of_int (logged st) + real (length calls) - 1) * lp_interval p"
  shows "\<exists>st'. publish_loop gen p calls st = Some (Inr (), st')"
  using assms
proof (induction calls arbitrary: st)
  case Nil
  then show ?case by simp
next
  case (Cons c calls)
  show ?case
  proof (cases "now st < lp_end_time p")
    case False
    then show ?thesis by simp
  next
    case True
    have "(real_of_int (logged st) - 1) * lp_interval p < 99 * lp_interval p"
      using Cons.prems(4,5) True by simp
    then have "real_of_int (logged st) - 1 < 99"
      using Cons.prems(2) by simp
    then have small: "logged st < regen_interval"
      by (simp add: regen_interval_def)
    from iteration_returns [OF _ Cons.prems(3) small, of c gen p] Cons.prems(1)
    obtain st1 where it: "publish_iteration gen p c st = (Inr (), st1)" by auto
    have l1: "logged st1 = logged st + 1" by (rule iteration_step(1) [OF it])
    have pace: "lp_start_time p + (real_of_int (logged st1) - 1) * lp_interval p < now st1"
      using iteration_keeps_pace [OF it] Cons.prems by simp
    have enough: "lp_end_time p \<le>
           lp_start_time p + (real_of_int (logged st1) + real (length calls) - 1) * lp_interval p"
      using Cons.prems(6) by (simp add: l1 algebra_simps)
    have "\<exists>st'. publish_loop gen p calls st1 = Some (Inr (), st')"
      by (rule Cons.IH [OF _ Cons.prems(2) _ pace Cons.prems(5) enough])
         (use Cons.prems l1 in simp_all)
    then show ?thesis using True it by simp
  qed
qed

lemma loop_count_lower:
  assumes "publish_loop gen p calls st = Some (Inr (), st')"
    and "\<forall>c \<in> set calls. oversleep c \<le> w"
    and "0 \<le> lp_interval p"
    and "max w (now st - (lp_start_time p + real_of_int (logged st) * lp_interval p))
           + sum_list (map (overrun (lp_interval p)) (take r calls))
         < lp_end_time p - lp_start_time p - (real_of_int (logged st) + real r) * lp_interval p"
  shows "logged st + int r + 1 \<le> logged st'"
  using assms
proof (induction calls arbitrary: st r)
  case Nil
  have "0 \<le> real r * lp_interval p" using Nil.prems(3) by simp
  with Nil.prems(4) have "now st < lp_end_time p" by (simp add: algebra_simps)
  with Nil.prems(1) show ?case by simp
next
  case (Cons c calls)
  have nonneg: "0 \<le> sum_list (map (overrun (lp_interval p)) xs)" for xs
    by (rule sum_list_nonneg) (auto simp: overrun_def)
  have "0 \<le> real r * lp_interval p" using Cons.prems(3) by simp
  with Cons.prems(4) nonneg [of "take r (c # calls)"]
  have running: "now st < lp_end_time p" by (simp add: algebra_simps)
  obtain res st1 where it: "publish_iteration gen p c st = (res, st1)"
    by (cases "publish_iteration gen p c st")
  show ?case
  proof (cases res)
    case (Inl e)
    with Cons.prems(1) running it show ?thesis by simp
  next
    case (Inr u)
    with it have it': "publish_iteration gen p c st = (Inr (), st1)" by simp
    from Cons.prems(1) running it' have rest: "publish_loop gen p calls st1 = Some (Inr (), st')"
      by simp
    have l1: "logged st1 = logged st + 1" by (rule iteration_step(1) [OF it'])
    show ?thesis
    proof (cases r)
      case 0
      with loop_counts_up [OF rest] l1 show ?thesis by simp
    next
      case (Suc r')
      define L where "L = now st - (lp_start_time p + real_of_int (logged st) * lp_interval p)"
      define L1 where "L1 = now st1 - (lp_start_time p + real_of_int (logged st1) * lp_interval p)"
      have late: "max w L1 \<le> max w L + overrun (lp_interval p) c"
        unfolding L1_def L_def iteration_step(2) [OF it'] l1 overrun_def
        using Cons.prems(2) by (auto simp: algebra_simps max_def)
      define S where "S = sum_list (map (overrun (lp_interval p)) (take r' calls))"
      have pre: "max w L + overrun (lp_interval p) c + S
         < lp_end_time p - lp_start_time p
             - (real_of_int (logged st) + real (Suc r')) * lp_interval p"
        using Cons.prems(4) unfolding L_def [symmetric] Suc S_def by simp
      have eq: "(real_of_int (logged st1) + real r') * lp_interval p =
                (real_of_int (logged st) + real (Suc r')) * lp_interval p"
        by (simp add: l1 algebra_simps)
      have budget: "max w L1 + sum_list (map (overrun (lp_interval p)) (take r' calls))
         < lp_end_time p - lp_start_time p - (real_of_int (logged st1) + real r') * lp_interval p"
        unfolding eq S_def [symmetric] using pre late by linarith
      from Cons.IH [OF rest _ Cons.prems(3) budget [unfolded L1_def]] Cons.prems(2)
      have "logged st1 + int r' + 1 \<le> logged st'" by simp
      then show ?thesis by (simp add: l1 Suc)
    qed
  qed
qed


lemma try_stops_late:
  assumes run: "client_try env dtype sz f d m0 = Some (Inr (), m, clock)"
  shows "start_time m = entry_clock env + 0.5 \<and> start_time m + d \<le> end_time m \<and>
         clock = end_time m"
proof -
  from run obtain interval payload st where
    loop: "publish_loop (generate_data env)
             \<lparr>lp_data_type = dtype, lp_parsed_size = sz, lp_interval = interval,
              lp_start_time = entry_clock env + 0.5, lp_end_time = entry_clock env + 0.5 + d\<rparr>
             (publish_calls env)
             \<lparr>now = entry_clock env + 0.5, logged = 0, latencies = [], current_data = payload\<rparr>
           = Some (Inr (), st)"
    and m: "m = m0\<lparr>start_time := entry_clock env + 0.5, end_time := now st,
                   log_count := logged st, latencies_ms := latencies st\<rparr>"
    and c: "clock = now st"
    unfolding client_try_def Let_def
    by (auto split: option.splits sum.splits prod.splits if_splits)
  from loop_stops_late [OF loop] show ?thesis
    by (simp add: m c)
qed

lemma try_count_upper:
  assumes calls: "\<forall>c \<in> set (publish_calls env). - (1 / 10) < oversleep c"
    and run: "client_try env dtype sz 10 1 m0 = Some (Inr (), m, clock)"
  shows "log_count m \<le> 11"
proof -
  let ?p = "\<lparr>lp_data_type = dtype, lp_parsed_size = sz, lp_interval = 1 / 10,
             lp_start_time = entry_clock env + 0.5, lp_end_time = entry_clock env + 0.5 + 1\<rparr>"
  from run obtain payload st where
    loop: "publish_loop (generate_data env) ?p (publish_calls env)
             \<lparr>now = entry_clock env + 0.5, logged = 0, latencies = [], current_data = payload\<rparr>
           = Some (Inr (), st)"
    and m: "log_count m = logged st"
    unfolding client_try_def Let_def py_truediv_def
    by (auto split: option.splits sum.splits prod.splits if_splits)
  from loop_count_upper [OF loop] calls
  have "logged st = 0 \<or> (real_of_int (logged st) - 2) * (1 / 10) < 1"
    by simp
  then have "logged st \<le> 11" by auto
  with m show ?thesis by simp
qed

lemma jitter_run:
  assumes conn: "connect_grpc env = None"
    and gen0: "generate_data env dtype sz 0 = Inr payload"
    and calls: "\<forall>c \<in> set (publish_calls env).
                  outcome c = None \<and> - (1 / 10) < oversleep c \<and> oversleep c \<le> w"
    and w0: "0 \<le> w"
    and len: "11 \<le> length (publish_calls env)"
    and budget: "w + sum_list (map (overrun (1 / 10)) (take 8 (publish_calls env))) < 2 / 10"
  shows "\<exists>m clock. client_try env dtype sz 10 1 m0 = Some (Inr (), m, clock) \<and>
           9 \<le> log_count m \<and> log_count m \<le> 11"
proof -
  define s where "s = entry_clock env + 1 / 2"
  define p where "p = \<lparr>lp_data_type = dtype, lp_parsed_size = sz, lp_interval = 1 / 10,
             lp_start_time = s, lp_end_time = s + 1\<rparr>"
  define st0 where "st0 = \<lparr>now = s, logged = 0, latencies = [], current_data = payload\<rparr>"
  have "\<exists>st'. publish_loop (generate_data env) p (publish_calls env) st0 = Some (Inr (), st')"
    by (rule loop_completes) (use calls len in \<open>auto simp: p_def st0_def\<close>)
  then obtain st' where
    run: "publish_loop (generate_data env) p (publish_calls env) st0 = Some (Inr (), st')"
    by blast
  have "logged st' = logged st0 \<or>
         lp_start_time p + (real_of_int (logged st') - 2) * lp_interval p < lp_end_time p"
    by (rule loop_count_upper [OF run]) (use calls in \<open>auto simp: p_def st0_def\<close>)
  then have upper: "logged st' \<le> 11"
    by (auto simp: p_def st0_def)
  have "logged st0 + int 8 + 1 \<le> logged st'"
    by (rule loop_count_lower [OF run, where w = w])
       (use calls w0 budget in \<open>auto simp: p_def st0_def\<close>)
  then have lower: "9 \<le> logged st'"
    by (simp add: st0_def)
  have "client_try env dtype sz 10 1 m0 =
          Some (Inr (), m0\<lparr>start_time := s, end_time := now st', log_count := logged st',
                           latencies_ms := latencies st'\<rparr>, now st')"
    using run unfolding client_try_def p_def st0_def s_def
    by (simp add: conn gen0 py_truediv_def Let_def)
  with lower upper show ?thesis by simp
qed

text \<open>
  Claim C8, as amended. In the publish loop the target of the sleep after the \<open>k\<close>-th
  publish is the absolute time \<open>start_time + k * interval\<close> with
  \<open>interval = 1 / frequency\<close>; the loop sleeps the remaining time to that target and not
  at all when the target has passed, so sleeps do not add up; and, for every frequency
  and duration, the loop ends as soon as the wall clock has reached
  \<open>start_time + duration\<close>, so a completed run ends no earlier than that. For a frequency
  of 10 Hz and a duration of 1 s:
  \<^item> whatever time the publish calls take, a run that completes publishes at most 11
    iterations, provided no sleep wakes a whole interval early;
  \<^item> when every publish call returns, no sleep wakes a whole interval early or oversleeps
    by more than \<open>w\<close>, and \<open>w\<close> plus the total time by which the first eight publish calls
    overrun the interval is below two intervals (0.2 s), the run completes and publishes
    between 9 and 11 iterations.
  The count is not between 9 and 11 whatever the jitter of the calls: see the
  counterexample.
\<close>

theorem absolute_schedule_pacing:
  assumes conn: "connect_grpc env = None"
    and gen0: "generate_data env dtype sz 0 = Inr payload"
  shows "(\<forall>call st st'.
            publish_iteration (generate_data env) p call st = (Inr (), st') \<longrightarrow>
            logged st' = logged st + 1 \<and>
            now st' =
              (if now st + real_of_int (elapsed_ns call) / 1000000000
                    < lp_start_time p + real_of_int (logged st + 1) * lp_interval p
               then lp_start_time p + real_of_int (logged st + 1) * lp_interval p
                      + oversleep call
               else now st + real_of_int (elapsed_ns call) / 1000000000)) \<and>
         (\<forall>calls st. lp_end_time p \<le> now st \<longrightarrow>
            publish_loop (generate_data env) p calls st = Some (Inr (), st)) \<and>
         (\<forall>f d m clock.
            client_try env dtype sz f d m0 = Some (Inr (), m, clock) \<longrightarrow>
            start_time m = entry_clock env + 0.5 \<and> start_time m + d \<le> end_time m) \<and>
         ((\<forall>c \<in> set (publish_calls env). - (1 / 10) < oversleep c) \<longrightarrow>
            (\<forall>m clock. client_try env dtype sz 10 1 m0 = Some (Inr (), m, clock) \<longrightarrow>
                 log_count m \<le> 11)) \<and>
         ((\<forall>c \<in> set (publish_calls env).
              outcome c = None \<and> - (1 / 10) < oversleep c \<and> oversleep c \<le> w) \<and>
          0 \<le> w \<and> 11 \<le> length (publish_calls env) \<and>
          w + sum_list (map (overrun (1 / 10)) (take 8 (publish_calls env))) < 2 / 10 \<longrightarrow>
            (\<exists>m clock.
               client_try env dtype sz 10 1 m0 = Some (Inr (), m, clock) \<and>
               9 \<le> log_count m \<and> log_count m \<le> 11))"
proof (intro conjI impI allI)
  fix call st st'
  assume "publish_iteration (generate_data env) p call st = (Inr (), st')"
  then show "logged st' = logged st + 1"
    and "now st' =
              (if now st + real_of_int (elapsed_ns call) / 1000000000
                    < lp_start_time p + real_of_int (logged st + 1) * lp_interval p
               then lp_start_time p + real_of_int (logged st + 1) * lp_interval p
                      + oversleep call
               else now st + real_of_int (elapsed_ns call) / 1000000000)"
    by (rule iteration_step)+
next
  fix calls and st :: "'a loop_state"
  assume "lp_end_time p \<le> now st"
  then show "publish_loop (generate_data env) p calls st = Some (Inr (), st)"
    by (cases calls) simp_all
next
  fix f d m clock
  assume run: "client_try env dtype sz f d m0 = Some (Inr (), m, clock)"
  from try_stops_late [OF run]
  show "start_time m = entry_clock env + 0.5" and "start_time m + d \<le> end_time m"
    by simp_all
next
  fix m clock
  assume "\<forall>c \<in> set (publish_calls env). - (1 / 10) < oversleep c"
    and "client_try env dtype sz 10 1 m0 = Some (Inr (), m, clock)"
  then show "log_count m \<le> 11" by (rule try_count_upper)
next
  assume h: "(\<forall>c \<in> set (publish_calls env).
              outcome c = None \<and> - (1 / 10) < oversleep c \<and> oversleep c \<le> w) \<and>
          0 \<le> w \<and> 11 \<le> length (publish_calls env) \<and>
          w + sum_list (map (overrun (1 / 10)) (take 8 (publish_calls env))) < 2 / 10"
  show "(\<exists>m clock.
            client_try env dtype sz 10 1 m0 = Some (Inr (), m, clock) \<and>
            9 \<le> log_count m \<and> log_count m \<le> 11)"
    by (rule jitter_run [OF conn gen0, where w = w]) (use h in simp_all)
qed

text \<open>
  A run with jitter inside the budget: the first call takes 250 ms, the ten calls after it
  1 ms each, and every sleep oversleeps by 1 ms.
\<close>

theorem absolute_schedule_pacing_witness:
  "\<exists>m clock.
     client_try (scripted_env (\<lparr>outcome = None, elapsed_ns = 250000000, oversleep = 0\<rparr> #
                    replicate 10 \<lparr>outcome = None, elapsed_ns = 1000000, oversleep = 1 / 1000\<rparr>))
       ''text'' (SizeInt 100) 10 1 ClientMetrics_default = Some (Inr (), m, clock) \<and>
     9 \<le> log_count m \<and> log_count m \<le> 11"
proof -
  let ?env = "scripted_env (\<lparr>outcome = None, elapsed_ns = 250000000, oversleep = 0\<rparr> #
                    replicate 10 \<lparr>outcome = None, elapsed_ns = 1000000, oversleep = 1 / 1000\<rparr>)"
  have c: "connect_grpc ?env = None" by (simp add: scripted_env_def)
  have g: "generate_data ?env ''text'' (SizeInt 100) 0 = Inr ()" by (simp add: scripted_env_def)
  have h: "(\<forall>c \<in> set (publish_calls ?env).
              outcome c = None \<and> - (1 / 10) < oversleep c \<and> oversleep c \<le> 1 / 1000) \<and>
          (0::real) \<le> 1 / 1000 \<and> 11 \<le> length (publish_calls ?env) \<and>
          1 / 1000 + sum_list (map (overrun (1 / 10)) (take 8 (publish_calls ?env))) < 2 / 10"
    by (simp add: scripted_env_def overrun_def eval_nat_numeral)
  from absolute_schedule_pacing [OF c g, where w = "1 / 1000" and ?m0.0 = ClientMetrics_default]
    h
  show ?thesis by blast
qed

lemma spike_run:
  "client_try (scripted_env [\<lparr>outcome = None, elapsed_ns = 1000000, oversleep = 0\<rparr>,
                             \<lparr>outcome = None, elapsed_ns = 1000000, oversleep = 0\<rparr>,
                             \<lparr>outcome = None, elapsed_ns = 900000000, oversleep = 0\<rparr>])
       ''text'' (SizeInt 100) 10 1 ClientMetrics_default =
     Some (Inr (), ClientMetrics_default\<lparr>start_time := 1 / 2, end_time := 16 / 10, log_count := 3,
                     latencies_ms := [1, 1, 900]\<rparr>, 16 / 10)"
  by (simp add: client_try_def scripted_env_def py_truediv_def Let_def publish_iteration_def
      regen_interval_def ClientMetrics_default_def)

text \<open>
  The claim as the specification words it ("between 9 and 11 regardless of per-call jitter") fails on a
  run with one slow call: two publish calls of 1 ms and a third of 900 ms. The third
  returns after the end of the run, and the loop has published 3 iterations.
\<close>

theorem jitter_spike_counterexample:
  "\<exists>m clock.
     client_try (scripted_env [\<lparr>outcome = None, elapsed_ns = 1000000, oversleep = 0\<rparr>,
                               \<lparr>outcome = None, elapsed_ns = 1000000, oversleep = 0\<rparr>,
                               \<lparr>outcome = None, elapsed_ns = 900000000, oversleep = 0\<rparr>])
       ''text'' (SizeInt 100) 10 1 ClientMetrics_default = Some (Inr (), m, clock) \<and>
     log_count m = 3 \<and> \<not> (9 \<le> log_count m \<and> log_count m \<le> 11)"
  by (rule exI [of _ "ClientMetrics_default\<lparr>start_time := 1 / 2, end_time := 16 / 10,
         log_count := 3, latencies_ms := [1, 1, 900]\<rparr>"], rule exI [of _ "16 / 10"])
     (simp add: spike_run)

lemma save_load_client_metrics:
  assumes "throughput_defined m"
  shows "\<exists>fs'. save_client_metrics fs m path = Inr fs' \<and> load_client_metrics fs' path = Inr m"
proof -
  obtain d where "ClientMetrics_to_dict m = Inr d" "ClientMetrics_from_dict d = Inr m"
    using ClientMetrics_round_trip [OF assms] by blast
  then show ?thesis
    by (simp add: save_client_metrics_def load_client_metrics_def py_bind_simps)
qed

lemma client_main_writes_once:
  assumes size: "parse_size env dtype size_arg = Inr parsed"
    and body: "client_try env dtype parsed frequency duration
                 (ClientMetrics_default\<lparr>client_id := cid, data_type := dtype,
                    data_size := parsed, frequency_hz := frequency\<rparr>) = Some (res, m1, clock)"
    and ok: "throughput_defined
               (case res of
                  Inl e \<Rightarrow> m1\<lparr>errors := errors m1 @ [py_str e], end_time := clock\<rparr>
                | Inr u \<Rightarrow> m1)"
  shows "\<exists>ex. client_main env fs server_addr dtype size_arg frequency duration metrics_file cid
             = Some ex \<and>
           written ex = [metrics_file] \<and> escaped ex = None \<and>
           load_client_metrics (files ex) metrics_file =
             Inr (case res of
                    Inl e \<Rightarrow> m1\<lparr>errors := errors m1 @ [py_str e], end_time := clock\<rparr>
                  | Inr u \<Rightarrow> m1)"
proof -
  define m2 where "m2 = (case res of
                    Inl e \<Rightarrow> m1\<lparr>errors := errors m1 @ [py_str e], end_time := clock\<rparr>
                  | Inr u \<Rightarrow> m1)"
  obtain fs' where fs': "save_client_metrics fs m2 metrics_file = Inr fs'"
    "load_client_metrics fs' metrics_file = Inr m2"
    using save_load_client_metrics ok unfolding m2_def by blast
  have "client_main env fs server_addr dtype size_arg frequency duration metrics_file cid
          = Some \<lparr>files = fs', written = [metrics_file], escaped = None\<rparr>"
    unfolding client_main_def Let_def size sum.case body option.case prod.case
      m2_def [symmetric] fs'(1) ..
  with fs'(2) show ?thesis
    unfolding m2_def by simp
qed

lemma scripted_int: "parse_size (scripted_env calls) ''text'' ''100'' = Inr (SizeInt 100)"
  by (simp add: parse_size_def scripted_env_def py_bind_simps)

lemma failing_try:
  "client_try (scripted_env [\<lparr>outcome = None, elapsed_ns = 1000000, oversleep = 0\<rparr>,
         \<lparr>outcome = Some (RuntimeError ''connection lost''), elapsed_ns = 1000000, oversleep = 0\<rparr>])
      ''text'' (SizeInt 100) 10 1 m0 =
     Some (Inl (RuntimeError ''connection lost''), m0\<lparr>start_time := 1 / 2\<rparr>, 601 / 1000)"
  by (simp add: client_try_def scripted_env_def py_truediv_def Let_def publish_iteration_def
      regen_interval_def)

text \<open>
  Claim C6 on a failing run. The first \<open>rr.log\<close> call returns after 1 ms and the second
  raises \<open>RuntimeError("connection lost")\<close>. \<open>main\<close> swallows the exception and writes the
  metrics file once, with the message in \<open>errors\<close> and with \<open>start_time\<close> and \<open>end_time\<close> set;
  but the file holds \<open>log_count = 0\<close> and no latencies, although the loop had counted one
  log and recorded one latency when the exception left it: the two locals are copied
  into the metrics object only after the loop has ended normally.
\<close>

theorem exception_drops_partial_metrics:
  "\<exists>ex m.
     client_main (scripted_env [\<lparr>outcome = None, elapsed_ns = 1000000, oversleep = 0\<rparr>,
         \<lparr>outcome = Some (RuntimeError ''connection lost''), elapsed_ns = 1000000, oversleep = 0\<rparr>])
       Map.empty ''rerun+http://127.0.0.1:9876/proxy'' ''text'' ''100'' 10 1
       ''client_0_metrics.json'' ''client_0'' = Some ex \<and>
     written ex = [''client_0_metrics.json''] \<and> escaped ex = None \<and>
     load_client_metrics (files ex) ''client_0_metrics.json'' = Inr m \<and>
     errors m = [''connection lost''] \<and> start_time m = 1 / 2 \<and> end_time m = 601 / 1000 \<and>
     log_count m = 0 \<and> latencies_ms m = [] \<and>
     publish_loop (\<lambda>dtype sz seed. Inr ())
       \<lparr>lp_data_type = ''text'', lp_parsed_size = SizeInt 100, lp_interval = 1 / 10,
        lp_start_time = 1 / 2, lp_end_time = 3 / 2\<rparr>
       [\<lparr>outcome = None, elapsed_ns = 1000000, oversleep = 0\<rparr>,
        \<lparr>outcome = Some (RuntimeError ''connection lost''), elapsed_ns = 1000000, oversleep = 0\<rparr>]
       \<lparr>now = 1 / 2, logged = 0, latencies = [], current_data = ()\<rparr> =
     Some (Inl (RuntimeError ''connection lost''),
           \<lparr>now = 601 / 1000, logged = 1, latencies = [1], current_data = ()\<rparr>)"
proof -
  let ?env = "scripted_env [\<lparr>outcome = None, elapsed_ns = 1000000, oversleep = 0\<rparr>,
         \<lparr>outcome = Some (RuntimeError ''connection lost''), elapsed_ns = 1000000, oversleep = 0\<rparr>]"
  from client_main_writes_once [OF scripted_int failing_try]
  obtain ex where ex:
    "client_main ?env Map.empty ''rerun+http://127.0.0.1:9876/proxy'' ''text'' ''100'' 10 1
       ''client_0_metrics.json'' ''client_0'' = Some ex"
    "written ex = [''client_0_metrics.json'']" "escaped ex = None"
    "load_client_metrics (files ex) ''client_0_metrics.json'' =
       Inr (ClientMetrics_default
         \<lparr>client_id := ''client_0'', data_type := ''text'', data_size := SizeInt 100,
          frequency_hz := 10, start_time := 1 / 2, errors := [''connection lost''],
          end_time := 601 / 1000\<rparr>)"
    by (fastforce simp: ClientMetrics_default_def throughput_defined_def fits_float_def)
  show ?thesis
    by (rule exI [of _ ex], rule exI [of _ "ClientMetrics_default
         \<lparr>client_id := ''client_0'', data_type := ''text'', data_size := SizeInt 100,
          frequency_hz := 10, start_time := 1 / 2, errors := [''connection lost''],
          end_time := 601 / 1000\<rparr>"])
       (simp add: ex ClientMetrics_default_def Let_def publish_iteration_def regen_interval_def)
qed

section \<open>The memory sampler\<close>

lemma monitor_loop_times:
  "\<exists>n. map timestamp (fst (monitor_loop ticks samples)) =
         map timestamp samples @ take n (tick_times ticks)"
proof (induction ticks samples rule: monitor_loop.induct)
  case (1 samples)
  show ?case by simp
next
  case (2 rest samples)
  have "map timestamp (fst (monitor_loop (StopSet # rest) samples)) =
          map timestamp samples @ take 0 (tick_times (StopSet # rest))" by simp
  then show ?case by blast
next
  case (3 rss t rest samples)
  then obtain n where
    "map timestamp (fst (monitor_loop rest
        (samples @ [\<lparr>timestamp = t, memory_mb = real_of_int rss / (1024 * 1024)\<rparr>]))) =
     map timestamp (samples @ [\<lparr>timestamp = t, memory_mb = real_of_int rss / (1024 * 1024)\<rparr>])
       @ take n (tick_times rest)"
    by blast
  then have "map timestamp (fst (monitor_loop (Reading rss t # rest) samples)) =
          map timestamp samples @ take (Suc n) (tick_times (Reading rss t # rest))" by simp
  then show ?case by blast
next
  case (4 rest samples)
  have "map timestamp (fst (monitor_loop (NoSuchProcess # rest) samples)) =
          map timestamp samples @ take 0 (tick_times (NoSuchProcess # rest))" by simp
  then show ?case by blast
next
  case (5 rest samples)
  then show ?case by simp
qed

lemma sorted_take: "sorted xs \<Longrightarrow> sorted (take n xs)"
  for xs :: "real list"
  by (rule sorted_wrt_take)

lemma start_fresh_samples:
  assumes "RerunServer_start env s0 cfg tmp = (Inr (), self)"
  shows "memory_samples (self_metrics self) = []"
  using assms
  by (auto simp: RerunServer_start_def Let_def RerunServer_rrd_file_def ServerMetrics_default_def
      split: sum.splits option.splits)

text \<open>
  Claim C9, as amended. Within one sampler run (the thread started by a successful
  \<open>start\<close>), the timestamps of the appended samples are readings of \<open>time.time()\<close> in the
  order in which the sampler took them; they are therefore non-decreasing, each earlier
  sample's timestamp at most the later one's, whenever the wall clock's readings do not
  go back during the run.
\<close>

theorem sampler_timestamps_follow_clock:
  assumes started: "RerunServer_start env s0 cfg tmp = (Inr (), self)"
    and clock: "sorted (tick_times (sampler_ticks env))"
  shows "(\<exists>n. map timestamp (RerunServer_monitor_memory env self) =
               take n (tick_times (sampler_ticks env))) \<and>
         sorted (map timestamp (RerunServer_monitor_memory env self))"
proof -
  have fresh: "memory_samples (self_metrics self) = []"
    using started by (rule start_fresh_samples)
  have "\<exists>n. map timestamp (RerunServer_monitor_memory env self) =
               take n (tick_times (sampler_ticks env))"
  proof (cases "self_proc self = None \<or> self_config self = None \<or> \<not> psutil_finds_process env")
    case True
    then have "map timestamp (RerunServer_monitor_memory env self) =
                 take 0 (tick_times (sampler_ticks env))"
      by (auto simp: RerunServer_monitor_memory_def fresh)
    then show ?thesis by blast
  next
    case False
    then show ?thesis
      using monitor_loop_times [of "sampler_ticks env" "[]"]
      by (simp add: RerunServer_monitor_memory_def fresh)
  qed
  then show ?thesis using clock by (auto intro: sorted_take)
qed

theorem sampler_timestamps_follow_clock_witness:
  "sorted (map timestamp
     (RerunServer_monitor_memory
        (scripted_server None [] [Reading 1048576 11, OtherException, Reading 2097152 12, StopSet] (Inr 0))
        (snd (RerunServer_start
           (scripted_server None [] [Reading 1048576 11, OtherException, Reading 2097152 12, StopSet] (Inr 0))
           RerunServer_init \<lparr>port = 9876, memory_sample_interval_ms = 100\<rparr> ''/tmp/bench''))))"
proof -
  let ?env = "scripted_server None [] [Reading 1048576 11, OtherException, Reading 2097152 12, StopSet] (Inr 0)"
  let ?r = "RerunServer_start ?env RerunServer_init \<lparr>port = 9876, memory_sample_interval_ms = 100\<rparr> ''/tmp/bench''"
  have s: "?r = (Inr (), snd ?r)"
    by (simp add: RerunServer_start_def scripted_server_def Let_def RerunServer_rrd_file_def
        RerunServer_init_def)
  have c: "sorted (tick_times (sampler_ticks ?env))"
    by (simp add: scripted_server_def)
  from sampler_timestamps_follow_clock [OF s c] show ?thesis by blast
qed

theorem clock_set_back_counterexample:
  "map timestamp
     (RerunServer_monitor_memory
        (scripted_server None [] [Reading 1048576 12, Reading 1048576 11, StopSet] (Inr 0))
        (snd (RerunServer_start
           (scripted_server None [] [Reading 1048576 12, Reading 1048576 11, StopSet] (Inr 0))
           RerunServer_init \<lparr>port = 9876, memory_sample_interval_ms = 100\<rparr> ''/tmp/bench'')))
     = [12, 11]
   \<and> \<not> sorted (map timestamp
     (RerunServer_monitor_memory
        (scripted_server None [] [Reading 1048576 12, Reading 1048576 11, StopSet] (Inr 0))
        (snd (RerunServer_start
           (scripted_server None [] [Reading 1048576 12, Reading 1048576 11, StopSet] (Inr 0))
           RerunServer_init \<lparr>port = 9876, memory_sample_interval_ms = 100\<rparr> ''/tmp/bench''))))"
  by (simp add: RerunServer_start_def scripted_server_def Let_def RerunServer_rrd_file_def
        RerunServer_init_def RerunServer_monitor_memory_def ServerMetrics_default_def)

section \<open>The orchestrator: launching clients, server failures, teardown\<close>

lemma launched_clients_append:
  "launched_clients (xs @ ys) = launched_clients xs @ launched_clients ys"
  by (induction xs rule: launched_clients.induct) simp_all

lemma warnings_append: "warnings (xs @ ys) = warnings xs @ warnings ys"
  by (induction xs rule: warnings.induct) simp_all

lemma launched_clients_waits:
  "launched_clients (map (\<lambda>(metrics_file, cid). ClientWait cid) ps) = []"
  by (induction ps) auto

lemma warnings_waits: "warnings (map (\<lambda>(metrics_file, cid). ClientWait cid) ps) = []"
  by (induction ps) auto

lemma start_clients_facts:
  assumes "\<forall>cid. spawn cid = None"
  shows "fst (start_clients spawn cc addr tmp n st) = Inr () \<and>
   length (launched_clients (events (snd (start_clients spawn cc addr tmp n st)))) =
     length (launched_clients (events st)) + n \<and>
   warnings (events (snd (start_clients spawn cc addr tmp n st))) = warnings (events st) \<and>
   length (client_procs (snd (start_clients spawn cc addr tmp n st))) =
     length (client_procs st) + n"
  using assms
  by (induction n arbitrary: st)
     (simp_all add: Let_def launched_clients_append warnings_append)

lemma launch_groups_facts:
  assumes creatable: "\<forall>l \<in> set (supported_languages b). \<exists>c. create_client b l = Inr c"
    and spawns: "\<forall>cid. spawn cid = None"
    and counts: "\<forall>g \<in> set gs. 0 \<le> group_count g"
  shows "fst (launch_groups b spawn d addr tmp gs st) = Inr () \<and>
     int (length (launched_clients (events (snd (launch_groups b spawn d addr tmp gs st))))) =
       int (length (launched_clients (events st))) +
       sum_list (map group_count
          (filter (\<lambda>g. group_language g \<in> set (supported_languages b)) gs)) \<and>
     warnings (events (snd (launch_groups b spawn d addr tmp gs st))) =
       warnings (events st) @
       map (skip_warning b) (filter (\<lambda>g. group_language g \<notin> set (supported_languages b)) gs) \<and>
     int (length (client_procs (snd (launch_groups b spawn d addr tmp gs st)))) =
       int (length (client_procs st)) +
       sum_list (map group_count
          (filter (\<lambda>g. group_language g \<in> set (supported_languages b)) gs))"
  using counts
proof (induction gs arbitrary: st)
  case Nil
  show ?case by simp
next
  case (Cons g gs)
  then have rest: "\<forall>g \<in> set gs. 0 \<le> group_count g" and g0: "0 \<le> group_count g" by simp_all
  show ?case
  proof (cases "group_language g \<in> set (supported_languages b)")
    case False
    then show ?thesis
      using Cons.IH [OF rest, of "st\<lparr>events := events st @ [Warning (skip_warning b g)]\<rparr>"]
      by (simp add: launched_clients_append warnings_append)
  next
    case True
    then obtain c where c: "create_client b (group_language g) = Inr c"
      using creatable by blast
    note sc = start_clients_facts [OF spawns, of "ClientConfig_from_config g d" addr tmp
        "nat (group_count g)" st]
    obtain st1 where st1: "start_clients spawn (ClientConfig_from_config g d) addr tmp
        (nat (group_count g)) st = (Inr (), st1)"
      using sc by (cases "start_clients spawn (ClientConfig_from_config g d) addr tmp
        (nat (group_count g)) st") simp
    show ?thesis
      using True c g0 sc Cons.IH [OF rest, of st1]
      by (simp add: st1)
  qed
qed

lemma RerunBackend_creatable:
  "\<forall>l \<in> set (supported_languages RerunBackend). \<exists>c. create_client RerunBackend l = Inr c"
  by (simp add: RerunBackend_def)

lemma get_backend_rerun: "get_backend ''rerun'' = Inr RerunBackend"
  by (simp add: get_backend_def BACKENDS_def)

lemma start_ok_state:
  assumes "RerunServer_start w s0 sc tmp = (Inr (), server)"
  shows "self_proc server \<noteq> None" "self_config server = Some sc" "self_temp_dir server = Some tmp"
    "self_monitor_thread server" "memory_samples (self_metrics server) = []"
  using assms
  by (auto simp: RerunServer_start_def Let_def RerunServer_rrd_file_def ServerMetrics_default_def
      split: sum.splits option.splits)

lemma launch_and_wait_running:
  assumes counts: "\<forall>g \<in> set (bench_clients cfg). 1 \<le> group_count g"
    and started: "run_server_start env cfg = (Inr (), server)"
    and running: "poll_at_check (server_world env) = None"
    and spawns: "\<forall>cid. client_spawn env cid = None"
  shows "\<exists>st. launch_and_wait env RerunBackend cfg server =
           (if client_procs st = [] then (Inl (RuntimeError ''No clients started''), st)
            else (Inr (), st\<lparr>events := events st @
                    map (\<lambda>(metrics_file, cid). ClientWait cid) (client_procs st)\<rparr>)) \<and>
         int (length (launched_clients (events st))) =
           sum_list (map group_count (supported_groups RerunBackend cfg)) \<and>
         warnings (events st) = map (skip_warning RerunBackend) (skipped_groups RerunBackend cfg) \<and>
         length (client_procs st) = length (launched_clients (events st))"
proof -
  have ok: "self_proc server \<noteq> None" "self_config server =
      Some (ServerConfig_from_config (bench_backend cfg) (bench_metrics cfg))"
    using start_ok_state [OF started [unfolded run_server_start_def]] by simp_all
  then obtain addr where addr: "RerunServer_get_address server = Inr addr"
    by (simp add: RerunServer_get_address_def)
  have run: "RerunServer_is_running (server_world env) server"
    using ok running by (simp add: RerunServer_is_running_def)
  let ?st0 = "\<lparr>client_procs = [], client_idx = 0, events = []\<rparr>"
  let ?r = "launch_groups RerunBackend (client_spawn env) (bench_duration_sec cfg) addr
              (tmpdir env) (bench_clients cfg) ?st0"
  have c0: "\<forall>g \<in> set (bench_clients cfg). 0 \<le> group_count g"
    using counts by force
  note facts = launch_groups_facts [OF RerunBackend_creatable spawns c0,
      of "bench_duration_sec cfg" addr "tmpdir env" ?st0]
  obtain st where st: "?r = (Inr (), st)"
    using facts by (cases ?r) simp
  have lw: "launch_and_wait env RerunBackend cfg server =
           (if client_procs st = [] then (Inl (RuntimeError ''No clients started''), st)
            else (Inr (), st\<lparr>events := events st @
                    map (\<lambda>(metrics_file, cid). ClientWait cid) (client_procs st)\<rparr>))"
    by (simp add: launch_and_wait_def Let_def run addr st)
  show ?thesis
    by (rule exI [of _ st])
       (use facts lw in \<open>simp add: st supported_groups_def skipped_groups_def\<close>)
qed


lemma run_benchmark_start_failed:
  assumes registered: "backend_cfg_type (bench_backend cfg) = ''rerun''"
    and failed: "fst (run_server_start env cfg) = Inl e"
  shows "run_benchmark env cfg keep =
           \<lparr>returned = Inl e,
            run_trace = [ServerStart, if keep then TmpdirKept (tmpdir env) else Rmtree (tmpdir env)]\<rparr>"
proof -
  obtain server where "run_server_start env cfg = (Inl e, server)"
    using failed by (cases "run_server_start env cfg") simp
  then show ?thesis
    unfolding run_benchmark_def registered get_backend_rerun Let_def run_server_start_def
    by simp
qed

lemma run_benchmark_started:
  assumes registered: "backend_cfg_type (bench_backend cfg) = ''rerun''"
    and started: "run_server_start env cfg = (Inr (), server)"
    and launch: "launch_and_wait env RerunBackend cfg server = (body, st)"
    and stop: "RerunServer_stop (server_world env) server = (halted, stopped)"
  shows "run_trace (run_benchmark env cfg keep) =
           ServerStart # events st @
             [ServerStop, if keep then TmpdirKept (tmpdir env) else Rmtree (tmpdir env)]"
    and "returned (run_benchmark env cfg keep) =
           (case halted of
              Inl e \<Rightarrow> Inl e
            | Inr u \<Rightarrow>
                (case body of
                   Inl e \<Rightarrow> Inl e
                 | Inr u \<Rightarrow>
                     (case collect_client_metrics (files_after_clients env) (client_procs st) of
                        Inl e \<Rightarrow> Inl e
                      | Inr loaded \<Rightarrow>
                          Inr \<lparr>name = bench_name cfg, description = bench_description cfg,
                               backend_type = ''rerun'', result_timestamp = now_iso env,
                               server_metrics = RerunServer_get_metrics stopped,
                               client_metrics = loaded,
                               config_snapshot = BenchmarkConfig_model_dump cfg\<rparr>)))"
  using started [unfolded run_server_start_def] launch stop
  unfolding run_benchmark_def registered get_backend_rerun Let_def
  by (simp_all split: sum.splits)

lemma demo_started_spawn:
  "run_server_start ((scripted_run (scripted_server None err ticks st)) \<lparr>client_spawn := f\<rparr>)
     (scripted_config groups) =
     (Inr (),
      \<lparr>self_proc = Some 4242,
       self_config = Some \<lparr>port = 9876, memory_sample_interval_ms = 100\<rparr>,
       self_temp_dir = Some ''/tmp/bench'',
       self_metrics = ServerMetrics_default\<lparr>server_start_time := 10\<rparr>,
       self_monitor_thread = True, self_stop_event = False\<rparr>)"
  by (simp add: run_server_start_def scripted_run_def scripted_server_def scripted_config_def
      RerunServer_start_def RerunServer_init_def RerunServer_rrd_file_def
      ServerConfig_from_config_def Let_def)

lemma demo_started:
  "run_server_start (scripted_run (scripted_server None err ticks st)) (scripted_config groups) =
     (Inr (),
      \<lparr>self_proc = Some 4242,
       self_config = Some \<lparr>port = 9876, memory_sample_interval_ms = 100\<rparr>,
       self_temp_dir = Some ''/tmp/bench'',
       self_metrics = ServerMetrics_default\<lparr>server_start_time := 10\<rparr>,
       self_monitor_thread = True, self_stop_event = False\<rparr>)"
  by (simp add: run_server_start_def scripted_run_def scripted_server_def scripted_config_def
      RerunServer_start_def RerunServer_init_def RerunServer_rrd_file_def
      ServerConfig_from_config_def Let_def)

lemma failing_stop:
  "fst (RerunServer_stop (scripted_server None [] [StopSet] (Inl (OSError ''stat failed'')))
     \<lparr>self_proc = Some 4242,
       self_config = Some \<lparr>port = 9876, memory_sample_interval_ms = 100\<rparr>,
       self_temp_dir = Some ''/tmp/bench'',
       self_metrics = ServerMetrics_default\<lparr>server_start_time := 10\<rparr>,
       self_monitor_thread = True, self_stop_event = False\<rparr>) = Inl (OSError ''stat failed'')"
  by (simp add: RerunServer_stop_def Let_def scripted_server_def RerunServer_rrd_file_def)

lemma returning_stop:
  "fst (RerunServer_stop (scripted_server None [] [StopSet] (Inr 0))
     \<lparr>self_proc = Some 4242,
       self_config = Some \<lparr>port = 9876, memory_sample_interval_ms = 100\<rparr>,
       self_temp_dir = Some ''/tmp/bench'',
       self_metrics = ServerMetrics_default\<lparr>server_start_time := 10\<rparr>,
       self_monitor_thread = True, self_stop_event = False\<rparr>) = Inr ()"
  by (simp add: RerunServer_stop_def Let_def scripted_server_def RerunServer_rrd_file_def)

text \<open>
  Claim C4, as amended. For a configuration whose groups have a count of at least one (as
  validation requires) and whose backend is registered, once the server has started and
  is running, and when every client process can be spawned: the number of client
  processes the orchestrator starts is the sum of the counts of the groups whose language
  the backend supports; each group with an unsupported language is skipped with one
  warning, in order, and does not abort the launch, which completes whenever at least one
  client was started; and when no client was started the launch raises
  \<open>RuntimeError("No clients started")\<close>, which is the error the run raises unless
  \<open>server.stop()\<close> in the \<open>finally\<close> block raises, whose error the run then raises instead.
\<close>

theorem launched_client_count:
  assumes counts: "\<forall>g \<in> set (bench_clients cfg). 1 \<le> group_count g"
    and registered: "backend_cfg_type (bench_backend cfg) = ''rerun''"
    and started: "fst (run_server_start env cfg) = Inr ()"
    and running: "poll_at_check (server_world env) = None"
    and spawns: "\<forall>cid. client_spawn env cid = None"
  shows "int (length (launched_clients (run_trace (run_benchmark env cfg keep)))) =
           sum_list (map group_count (supported_groups RerunBackend cfg)) \<and>
         warnings (run_trace (run_benchmark env cfg keep)) =
           map (skip_warning RerunBackend) (skipped_groups RerunBackend cfg) \<and>
         (launched_clients (run_trace (run_benchmark env cfg keep)) \<noteq> [] \<longrightarrow>
            fst (launch_and_wait env RerunBackend cfg (snd (run_server_start env cfg))) = Inr ()) \<and>
         (launched_clients (run_trace (run_benchmark env cfg keep)) = [] \<longrightarrow>
            fst (launch_and_wait env RerunBackend cfg (snd (run_server_start env cfg))) =
              Inl (RuntimeError ''No clients started'') \<and>
            returned (run_benchmark env cfg keep) =
              (case fst (RerunServer_stop (server_world env) (snd (run_server_start env cfg))) of
                 Inl e \<Rightarrow> Inl e
               | Inr u \<Rightarrow> Inl (RuntimeError ''No clients started'')))"
proof -
  obtain server where server: "run_server_start env cfg = (Inr (), server)"
    using started by (cases "run_server_start env cfg") simp
  obtain st where st:
    "launch_and_wait env RerunBackend cfg server =
           (if client_procs st = [] then (Inl (RuntimeError ''No clients started''), st)
            else (Inr (), st\<lparr>events := events st @
                    map (\<lambda>(metrics_file, cid). ClientWait cid) (client_procs st)\<rparr>))"
    "int (length (launched_clients (events st))) =
           sum_list (map group_count (supported_groups RerunBackend cfg))"
    "warnings (events st) = map (skip_warning RerunBackend) (skipped_groups RerunBackend cfg)"
    "length (client_procs st) = length (launched_clients (events st))"
    using launch_and_wait_running [OF counts server running spawns] by blast
  obtain halted stopped where stop: "RerunServer_stop (server_world env) server = (halted, stopped)"
    by (cases "RerunServer_stop (server_world env) server")
  have none: "client_procs st = [] \<longleftrightarrow> launched_clients (events st) = []"
    using st(4) by (metis length_0_conv)
  show ?thesis
  proof (cases "client_procs st = []")
    case True
    then have lw: "launch_and_wait env RerunBackend cfg server =
        (Inl (RuntimeError ''No clients started''), st)"
      using st(1) by simp
    have tr: "run_trace (run_benchmark env cfg keep) = ServerStart # events st @
             [ServerStop, if keep then TmpdirKept (tmpdir env) else Rmtree (tmpdir env)]"
      by (rule run_benchmark_started(1) [OF registered server lw stop])
    have rt: "returned (run_benchmark env cfg keep) =
        (case halted of Inl e \<Rightarrow> Inl e | Inr u \<Rightarrow> Inl (RuntimeError ''No clients started''))"
      using run_benchmark_started(2) [OF registered server lw stop, of keep]
      by (cases halted) simp_all
    have l: "launched_clients (run_trace (run_benchmark env cfg keep)) = launched_clients (events st)"
      unfolding tr by (simp add: launched_clients_append)
    have w: "warnings (run_trace (run_benchmark env cfg keep)) = warnings (events st)"
      unfolding tr by (simp add: warnings_append)
    show ?thesis
      unfolding l w using st(2,3) True none rt
      by (auto simp: server lw stop split: sum.splits)
  next
    case False
    let ?st = "st\<lparr>events := events st @
                    map (\<lambda>(metrics_file, cid). ClientWait cid) (client_procs st)\<rparr>"
    from False have lw: "launch_and_wait env RerunBackend cfg server = (Inr (), ?st)"
      using st(1) by simp
    have tr: "run_trace (run_benchmark env cfg keep) = ServerStart # events ?st @
             [ServerStop, if keep then TmpdirKept (tmpdir env) else Rmtree (tmpdir env)]"
      by (rule run_benchmark_started(1) [OF registered server lw stop])
    have l: "launched_clients (run_trace (run_benchmark env cfg keep)) = launched_clients (events st)"
      unfolding tr by (simp add: launched_clients_append launched_clients_waits)
    have w: "warnings (run_trace (run_benchmark env cfg keep)) = warnings (events st)"
      unfolding tr by (simp add: warnings_append warnings_waits)
    show ?thesis
      unfolding l w using st(2,3) False none
      by (simp add: server lw)
  qed
qed

theorem launched_client_count_witness:
  "int (length (launched_clients (run_trace (run_benchmark
      (scripted_run (scripted_server None [] [StopSet] (Inr 0)))
      (scripted_config [scripted_group ''python'' 2, scripted_group ''cpp'' 5,
                        scripted_group ''python'' 1]) False)))) = 3 \<and>
   warnings (run_trace (run_benchmark
      (scripted_run (scripted_server None [] [StopSet] (Inr 0)))
      (scripted_config [scripted_group ''python'' 2, scripted_group ''cpp'' 5,
                        scripted_group ''python'' 1]) False)) =
     [''[yellow]Warning: Language '' @ [CHR 0x27] @ ''cpp'' @ [CHR 0x27] @
      '' not supported for rerun, skipping[/]'']"
proof -
  let ?env = "scripted_run (scripted_server None [] [StopSet] (Inr 0))"
  let ?cfg = "scripted_config [scripted_group ''python'' 2, scripted_group ''cpp'' 5,
                        scripted_group ''python'' 1]"
  have c: "\<forall>g \<in> set (bench_clients ?cfg). 1 \<le> group_count g"
    by (simp add: scripted_config_def scripted_group_def)
  have r: "backend_cfg_type (bench_backend ?cfg) = ''rerun''"
    by (simp add: scripted_config_def)
  have s: "fst (run_server_start ?env ?cfg) = Inr ()"
    by (simp add: demo_started)
  have p: "poll_at_check (server_world ?env) = None"
    by (simp add: scripted_run_def scripted_server_def)
  have a: "\<forall>cid. client_spawn ?env cid = None"
    by (simp add: scripted_run_def)
  from launched_client_count [OF c r s p a, of False] show ?thesis
    by (simp add: supported_groups_def skipped_groups_def scripted_config_def scripted_group_def
        RerunBackend_def skip_warning_def)
qed

text \<open>
  The claim as the specification words it fails in two runs of a valid configuration. When the second
  of three client processes cannot be spawned, one client is started, not three, and the
  run raises the error of the spawn. When the only group is in a language the backend
  does not support and \<open>server.stop()\<close> raises, the run raises the error of the stop, not
  the no-clients error.
\<close>

theorem spawn_failure_counterexample:
  "launched_clients (run_trace (run_benchmark
      ((scripted_run (scripted_server None [] [StopSet] (Inr 0)))
         \<lparr>client_spawn := (\<lambda>cid. if cid = ''client_1'' then Some (OSError ''spawn failed'')
                                 else None)\<rparr>)
      (scripted_config [scripted_group ''python'' 2, scripted_group ''python'' 1]) False))
     = [''client_0''] \<and>
   returned (run_benchmark
      ((scripted_run (scripted_server None [] [StopSet] (Inr 0)))
         \<lparr>client_spawn := (\<lambda>cid. if cid = ''client_1'' then Some (OSError ''spawn failed'')
                                 else None)\<rparr>)
      (scripted_config [scripted_group ''python'' 2, scripted_group ''python'' 1]) False)
     = Inl (OSError ''spawn failed'') \<and>
   launched_clients (run_trace (run_benchmark
      (scripted_run (scripted_server None [] [StopSet] (Inl (OSError ''stat failed''))))
      (scripted_config [scripted_group ''cpp'' 5]) False)) = [] \<and>
   returned (run_benchmark
      (scripted_run (scripted_server None [] [StopSet] (Inl (OSError ''stat failed''))))
      (scripted_config [scripted_group ''cpp'' 5]) False) = Inl (OSError ''stat failed'')"
proof -
  let ?server = "\<lparr>self_proc = Some 4242,
       self_config = Some \<lparr>port = 9876, memory_sample_interval_ms = 100\<rparr>,
       self_temp_dir = Some ''/tmp/bench'',
       self_metrics = ServerMetrics_default\<lparr>server_start_time := 10\<rparr>,
       self_monitor_thread = True, self_stop_event = False\<rparr>"
  let ?spawn = "\<lambda>cid. if cid = ''client_1'' then Some (OSError ''spawn failed'') else None"
  let ?env1 = "(scripted_run (scripted_server None [] [StopSet] (Inr 0)))
                 \<lparr>client_spawn := ?spawn\<rparr>"
  let ?cfg1 = "scripted_config [scripted_group ''python'' 2, scripted_group ''python'' 1]"
  let ?env2 = "scripted_run (scripted_server None [] [StopSet] (Inl (OSError ''stat failed'')))"
  let ?cfg2 = "scripted_config [scripted_group ''cpp'' 5]"
  have r1: "backend_cfg_type (bench_backend ?cfg1) = ''rerun''"
    and r2: "backend_cfg_type (bench_backend ?cfg2) = ''rerun''"
    by (simp_all add: scripted_config_def)
  obtain body1 st1 where lw1: "launch_and_wait ?env1 RerunBackend ?cfg1 ?server = (body1, st1)"
    by (cases "launch_and_wait ?env1 RerunBackend ?cfg1 ?server")
  then have ev1: "body1 = Inl (OSError ''spawn failed'')"
      "launched_clients (events st1) = [''client_0'']"
    by (auto simp: launch_and_wait_def Let_def RerunServer_is_running_def scripted_run_def
        scripted_server_def RerunServer_get_address_def scripted_config_def scripted_group_def
        RerunBackend_def str_int_def numeral_2_eq_2 split: if_splits)
  obtain stopped1 where stop1: "RerunServer_stop (server_world ?env1) ?server =
      (Inr (), stopped1)"
    using returning_stop
    by (cases "RerunServer_stop (server_world ?env1) ?server") (simp add: scripted_run_def)
  note tr1 = run_benchmark_started(1) [OF r1 demo_started_spawn lw1 stop1, of False]
  note rt1 = run_benchmark_started(2) [OF r1 demo_started_spawn lw1 stop1, of False]
  obtain body2 st2 where lw2: "launch_and_wait ?env2 RerunBackend ?cfg2 ?server = (body2, st2)"
    by (cases "launch_and_wait ?env2 RerunBackend ?cfg2 ?server")
  then have ev2: "launched_clients (events st2) = []"
    by (auto simp: launch_and_wait_def Let_def RerunServer_is_running_def scripted_run_def
        scripted_server_def RerunServer_get_address_def scripted_config_def scripted_group_def
        RerunBackend_def skip_warning_def split: if_splits)
  obtain stopped2 where stop2: "RerunServer_stop (server_world ?env2) ?server =
      (Inl (OSError ''stat failed''), stopped2)"
    using failing_stop
    by (cases "RerunServer_stop (server_world ?env2) ?server") (simp add: scripted_run_def)
  note tr2 = run_benchmark_started(1) [OF r2 demo_started lw2 stop2, of False]
  note rt2 = run_benchmark_started(2) [OF r2 demo_started lw2 stop2, of False]
  show ?thesis
    unfolding tr1 rt1 tr2 rt2 by (simp add: launched_clients_append ev1 ev2)
qed

text \<open>
  Claim C5, as amended. If the server subprocess has already exited when \<open>start\<close> polls
  it after the warm-up sleep, \<open>start\<close> raises: when the captured stdout and stderr are
  well-formed UTF-8, a \<open>RuntimeError\<close> whose message carries the captured stdout and
  stderr verbatim, so that the carried stderr is non-empty exactly when the subprocess
  wrote to stderr; and otherwise the \<open>UnicodeDecodeError\<close> of the decoding. The run raises
  the same error, starts no client, and does not call \<open>server.stop()\<close>.
\<close>

theorem server_exit_aborts_run:
  assumes registered: "backend_cfg_type (bench_backend cfg) = ''rerun''"
    and spawned: "popen (server_world env) = Inr pid"
    and exited: "poll_after_warmup (server_world env) = Some returncode"
  shows "fst (RerunServer_start (server_world env) self server_config tmp) =
           Inl (if utf8_valid (map of_char (captured_stdout (server_world env))) \<and>
                   utf8_valid (map of_char (captured_stderr (server_world env)))
                then RuntimeError (''Rerun server failed to start.'' @ [CHR 0x0A] @
                       ''stdout: '' @ captured_stdout (server_world env) @ [CHR 0x0A] @
                       ''stderr: '' @ captured_stderr (server_world env))
                else UnicodeDecodeError) \<and>
         returned (run_benchmark env cfg keep) =
           Inl (if utf8_valid (map of_char (captured_stdout (server_world env))) \<and>
                   utf8_valid (map of_char (captured_stderr (server_world env)))
                then RuntimeError (''Rerun server failed to start.'' @ [CHR 0x0A] @
                       ''stdout: '' @ captured_stdout (server_world env) @ [CHR 0x0A] @
                       ''stderr: '' @ captured_stderr (server_world env))
                else UnicodeDecodeError) \<and>
         launched_clients (run_trace (run_benchmark env cfg keep)) = [] \<and>
         ServerStop \<notin> set (run_trace (run_benchmark env cfg keep))"
proof -
  define failure where "failure =
    (if utf8_valid (map of_char (captured_stdout (server_world env))) \<and>
        utf8_valid (map of_char (captured_stderr (server_world env)))
     then RuntimeError (''Rerun server failed to start.'' @ [CHR 0x0A] @
            ''stdout: '' @ captured_stdout (server_world env) @ [CHR 0x0A] @
            ''stderr: '' @ captured_stderr (server_world env))
     else UnicodeDecodeError)"
  have start: "fst (RerunServer_start (server_world env) s sc t) = Inl failure" for s sc t
    by (simp add: RerunServer_start_def Let_def RerunServer_rrd_file_def spawned exited
        bytes_decode_def failure_def)
  have "fst (run_server_start env cfg) = Inl failure"
    unfolding run_server_start_def by (rule start)
  from run_benchmark_start_failed [OF registered this, of keep] start [of self server_config tmp]
  show ?thesis unfolding failure_def by simp
qed

theorem server_exit_aborts_run_witness:
  "returned (run_benchmark
      (scripted_run (scripted_server (Some 1) ''Error: address already in use'' [] (Inr 0)))
      (scripted_config [scripted_group ''python'' 2]) False) =
     Inl (RuntimeError (''Rerun server failed to start.'' @ [CHR 0x0A] @ ''stdout: '' @
                        [CHR 0x0A] @ ''stderr: Error: address already in use'')) \<and>
   launched_clients (run_trace (run_benchmark
      (scripted_run (scripted_server (Some 1) ''Error: address already in use'' [] (Inr 0)))
      (scripted_config [scripted_group ''python'' 2]) False)) = []"
proof -
  let ?env = "scripted_run (scripted_server (Some 1) ''Error: address already in use'' [] (Inr 0))"
  let ?cfg = "scripted_config [scripted_group ''python'' 2]"
  have r: "backend_cfg_type (bench_backend ?cfg) = ''rerun''"
    by (simp add: scripted_config_def)
  have p: "popen (server_world ?env) = Inr 4242"
    and x: "poll_after_warmup (server_world ?env) = Some 1"
    and o: "captured_stdout (server_world ?env) = []"
    and e: "captured_stderr (server_world ?env) = ''Error: address already in use''"
    by (simp_all add: scripted_run_def scripted_server_def)
  from server_exit_aborts_run [OF r p x, of RerunServer_init
         "\<lparr>port = 9876, memory_sample_interval_ms = 100\<rparr>" "''/tmp/bench''" False]
  show ?thesis by (simp add: o e)
qed

theorem silent_exit_counterexample:
  "captured_stderr (scripted_server (Some 1) [] [] (Inr 0)) = [] \<and>
   fst (RerunServer_start (scripted_server (Some 1) [] [] (Inr 0)) RerunServer_init
          \<lparr>port = 9876, memory_sample_interval_ms = 100\<rparr> ''/tmp/bench'') =
     Inl (RuntimeError (''Rerun server failed to start.'' @ [CHR 0x0A] @ ''stdout: '' @ [] @
                        [CHR 0x0A] @ ''stderr: '' @ []))"
  by (simp add: scripted_server_def RerunServer_start_def RerunServer_init_def Let_def
      RerunServer_rrd_file_def bytes_decode_def)

text \<open>
  Claim C7, as amended. Whatever happens in a run whose backend is registered, the
  temporary directory is removed (or kept, if asked) last; once \<open>server.start\<close> has
  returned, \<open>server.stop()\<close> is called whatever the launch phase did; but an exception
  raised by \<open>server.stop()\<close> is neither caught nor logged: the run raises it and returns
  no result. When \<open>server.stop()\<close> returns normally, the launch phase has completed and
  the metrics files load, the run returns a result holding the stopped server's metrics
  and the loaded client metrics.
\<close>

theorem stop_failure_escalates:
  assumes registered: "backend_cfg_type (bench_backend cfg) = ''rerun''"
  shows "last (run_trace (run_benchmark env cfg keep)) =
           (if keep then TmpdirKept (tmpdir env) else Rmtree (tmpdir env)) \<and>
         (fst (run_server_start env cfg) = Inr () \<longrightarrow>
            ServerStop \<in> set (run_trace (run_benchmark env cfg keep))) \<and>
         (fst (run_server_start env cfg) = Inr () \<and>
          fst (RerunServer_stop (server_world env) (snd (run_server_start env cfg))) = Inl e \<longrightarrow>
            returned (run_benchmark env cfg keep) = Inl e) \<and>
         (fst (run_server_start env cfg) = Inr () \<and>
          fst (RerunServer_stop (server_world env) (snd (run_server_start env cfg))) = Inr () \<and>
          fst (launch_and_wait env RerunBackend cfg (snd (run_server_start env cfg))) = Inr () \<and>
          collect_client_metrics (files_after_clients env)
            (client_procs (snd (launch_and_wait env RerunBackend cfg
                                  (snd (run_server_start env cfg))))) = Inr loaded \<longrightarrow>
            (\<exists>r. returned (run_benchmark env cfg keep) = Inr r \<and> client_metrics r = loaded \<and>
                 server_metrics r =
                   RerunServer_get_metrics
                     (snd (RerunServer_stop (server_world env) (snd (run_server_start env cfg))))))"
proof (cases "fst (run_server_start env cfg)")
  case (Inl e')
  from run_benchmark_start_failed [OF registered Inl, of keep] Inl
  show ?thesis by simp
next
  case (Inr u)
  obtain server where server: "run_server_start env cfg = (Inr (), server)"
    using Inr by (cases "run_server_start env cfg") simp
  obtain body st where lw: "launch_and_wait env RerunBackend cfg server = (body, st)"
    by (cases "launch_and_wait env RerunBackend cfg server")
  obtain halted stopped where stop: "RerunServer_stop (server_world env) server = (halted, stopped)"
    by (cases "RerunServer_stop (server_world env) server")
  note tr = run_benchmark_started(1) [OF registered server lw stop, of keep]
  note rt = run_benchmark_started(2) [OF registered server lw stop, of keep]
  show ?thesis
    unfolding tr rt by (auto simp: server lw stop)
qed

theorem stop_failure_escalates_witness:
  "last (run_trace (run_benchmark
      (scripted_run (scripted_server None [] [StopSet] (Inr 1048576)))
      (scripted_config [scripted_group ''python'' 1]) False)) = Rmtree ''/tmp/bench'' \<and>
   ServerStop \<in> set (run_trace (run_benchmark
      (scripted_run (scripted_server None [] [StopSet] (Inr 1048576)))
      (scripted_config [scripted_group ''python'' 1]) False))"
proof -
  let ?env = "scripted_run (scripted_server None [] [StopSet] (Inr 1048576))"
  let ?cfg = "scripted_config [scripted_group ''python'' 1]"
  have r: "backend_cfg_type (bench_backend ?cfg) = ''rerun''"
    by (simp add: scripted_config_def)
  have s: "fst (run_server_start ?env ?cfg) = Inr ()"
    by (simp add: demo_started)
  from stop_failure_escalates [OF r, of ?env False] s
  show ?thesis by (simp add: scripted_run_def)
qed

theorem stop_error_counterexample:
  "returned (run_benchmark
      (scripted_run (scripted_server None [] [StopSet] (Inl (OSError ''stat failed''))))
      (scripted_config [scripted_group ''python'' 1]) False) = Inl (OSError ''stat failed'') \<and>
   launched_clients (run_trace (run_benchmark
      (scripted_run (scripted_server None [] [StopSet] (Inl (OSError ''stat failed''))))
      (scripted_config [scripted_group ''python'' 1]) False)) = [''client_0'']"
proof -
  let ?w = "scripted_server None [] [StopSet] (Inl (OSError ''stat failed''))"
  let ?env = "scripted_run ?w"
  let ?cfg = "scripted_config [scripted_group ''python'' 1]"
  let ?server = "\<lparr>self_proc = Some 4242,
       self_config = Some \<lparr>port = 9876, memory_sample_interval_ms = 100\<rparr>,
       self_temp_dir = Some ''/tmp/bench'',
       self_metrics = ServerMetrics_default\<lparr>server_start_time := 10\<rparr>,
       self_monitor_thread = True, self_stop_event = False\<rparr>"
  have r: "backend_cfg_type (bench_backend ?cfg) = ''rerun''"
    by (simp add: scripted_config_def)
  obtain body st where lw: "launch_and_wait ?env RerunBackend ?cfg ?server = (body, st)"
    by (cases "launch_and_wait ?env RerunBackend ?cfg ?server")
  then have ev: "launched_clients (events st) = [''client_0'']"
    by (auto simp: launch_and_wait_def Let_def RerunServer_is_running_def scripted_run_def
        scripted_server_def RerunServer_get_address_def scripted_config_def scripted_group_def
        RerunBackend_def str_int_def split: if_splits)
  obtain stopped where stop: "RerunServer_stop (server_world ?env) ?server =
      (Inl (OSError ''stat failed''), stopped)"
    using failing_stop
    by (cases "RerunServer_stop (server_world ?env) ?server") (simp add: scripted_run_def)
  note tr = run_benchmark_started(1) [OF r demo_started lw stop, of False]
  note rt = run_benchmark_started(2) [OF r demo_started lw stop, of False]
  show ?thesis
    unfolding tr rt by (simp add: launched_clients_append ev)
qed

end
